theory Spec2Isabelle
  imports Main "HOL-Library.AList" "HOL-Library.Char_ord" "HOL-Library.List_Lexorder"
begin

section \<open>Errors and actions\<close>

text \<open>
  The exceptions the JavaScript of the repository can raise. \<open>Error\<close> and
  \<open>ParserError\<close> are raised by \<^verbatim>\<open>throw new ...\<close> statements and carry
  their message; the other three are raised by the language itself (a call of something
  that is no function, an array length that is no number, a variable that is not
  declared).
\<close>

datatype js_error =
    TypeError
  | RangeError
  | ReferenceError
  | Error string
  | ParserError string

text \<open>
  \<^verbatim>\<open>utils/constants.js\<close>: \<^verbatim>\<open>ParserActions = {SHIFT: 1, REDUCE: 2, ACCEPT: 3}\<close>.
  A table cell is an array \<^verbatim>\<open>[ParserActions.SHIFT, state]\<close>,
  \<^verbatim>\<open>[ParserActions.REDUCE, production]\<close> or \<^verbatim>\<open>[ParserActions.ACCEPT]\<close>. The
  production of a reduce action is what \<^verbatim>\<open>indexOf\<close> returned, an index or \<open>-1\<close>.
\<close>

datatype action = Shift nat | Reduce int | Accept


section \<open>ParserGeneratorFactory.createGenerator\<close>

datatype generator_class =
  LR0Generator | SLRGenerator | LALRGenerator | LR1Generator | LLGenerator

text \<open>
  \<^verbatim>\<open>generatorMap\<close> is an object literal, so \<^verbatim>\<open>generatorMap[type]\<close> reads an own
  property when \<^verbatim>\<open>type\<close> is one of the five keys and otherwise follows the
  prototype chain to \<^verbatim>\<open>Object.prototype\<close>. The values found there are the
  constructor \<^verbatim>\<open>Object\<close>, the built-in methods (functions that are no constructors)
  and, for \<^verbatim>\<open>__proto__\<close>, the prototype object itself. All of them are truthy.
\<close>

datatype js_property =
    GeneratorClass generator_class
  | ObjectConstructor
  | BuiltinMethod
  | PrototypeObject

definition generatorMap :: "(string \<times> generator_class) list" where
  "generatorMap =
     [(''lr0'', LR0Generator), (''slr'', SLRGenerator), (''lalr'', LALRGenerator),
      (''lr1'', LR1Generator), (''ll'', LLGenerator)]"

definition Object_prototype_methods :: "string list" where
  "Object_prototype_methods =
     [''hasOwnProperty'', ''isPrototypeOf'', ''propertyIsEnumerable'', ''toLocaleString'',
      ''toString'', ''valueOf'', ''__defineGetter__'', ''__defineSetter__'',
      ''__lookupGetter__'', ''__lookupSetter__'']"

definition Object_prototype_get :: "string \<Rightarrow> js_property option" where
  "Object_prototype_get k =
     (if k = ''constructor'' then Some ObjectConstructor
      else if k = ''__proto__'' then Some PrototypeObject
      else if k \<in> set Object_prototype_methods then Some BuiltinMethod
      else None)"

definition generatorMap_get :: "string \<Rightarrow> js_property option" where
  "generatorMap_get k =
     (case map_of generatorMap k of
        Some c \<Rightarrow> Some (GeneratorClass c)
      | None \<Rightarrow> Object_prototype_get k)"

text \<open>
  Whether \<^verbatim>\<open>Object.prototype\<close> has a property of that name: for such a name
  \<^verbatim>\<open>obj[name]\<close> is truthy on every object, also on one without own properties.
\<close>

definition inherited_property :: "string \<Rightarrow> bool" where
  "inherited_property k = (Object_prototype_get k \<noteq> None)"

text \<open>
  What \<^verbatim>\<open>new GeneratorClass(grammar, options)\<close> gives: an instance of a generator
  class, or, for \<^verbatim>\<open>new Object(grammar, options)\<close>, the grammar converted to an
  object, which is no generator.
\<close>

datatype created = Instance generator_class | NoGenerator

text \<open>
  \<^verbatim>\<open>createGenerator(type, grammar, options)\<close>. The argument \<open>type\<close> is a string
  or \<^verbatim>\<open>undefined\<close> (\<open>None\<close>), which as a property key is the string
  \<^verbatim>\<open>"undefined"\<close>. \<^verbatim>\<open>new\<close> applied to a value that is no constructor raises a
  TypeError.
\<close>

definition createGenerator :: "string option \<Rightarrow> js_error + created" where
  "createGenerator type =
     (let key = (case type of None \<Rightarrow> ''undefined'' | Some s \<Rightarrow> s);
          cls = (case generatorMap_get key of
                   None \<Rightarrow> GeneratorClass LALRGenerator
                 | Some v \<Rightarrow> v)
      in case cls of
           GeneratorClass c \<Rightarrow> Inr (Instance c)
         | ObjectConstructor \<Rightarrow> Inr NoGenerator
         | BuiltinMethod \<Rightarrow> Inl TypeError
         | PrototypeObject \<Rightarrow> Inl TypeError)"

text \<open>
  \<^verbatim>\<open>index.js\<close>: \<^verbatim>\<open>Jison\<close> passes \<^verbatim>\<open>options.type || 'lalr'\<close>; the empty string
  and \<^verbatim>\<open>undefined\<close> are falsy.
\<close>

definition Jison_generator :: "string option \<Rightarrow> js_error + created" where
  "Jison_generator options_type =
     createGenerator
       (Some (case options_type of None \<Rightarrow> ''lalr''
              | Some s \<Rightarrow> if s = [] then ''lalr'' else s))"

section \<open>JavaScript containers\<close>

text \<open>
  A \<^verbatim>\<open>Set\<close> of strings is the list of its elements in insertion order, without
  duplicates; a \<^verbatim>\<open>Map\<close> is an association list in insertion order, on which
  \<^verbatim>\<open>get\<close> is \<^const>\<open>map_of\<close> and \<^verbatim>\<open>set\<close> is \<^const>\<open>AList.update\<close>
  (an existing key keeps its place, a new key goes to the end). Strings are compared
  and sorted by character code, as \<^verbatim>\<open>Array.prototype.sort\<close> does by default.
\<close>

definition Set_add :: "'a list \<Rightarrow> 'a \<Rightarrow> 'a list" where
  "Set_add s x = (if x \<in> set s then s else s @ [x])"

fun join :: "string \<Rightarrow> string list \<Rightarrow> string" where
  "join sep [] = []"
| "join sep [x] = x"
| "join sep (x # y # ys) = x @ sep @ join sep (y # ys)"

text \<open>The decimal digits of a number, as a template literal prints it.\<close>

function string_of_nat :: "nat \<Rightarrow> string" where
  "string_of_nat n =
     (if n < 10 then [''0123456789'' ! n]
      else string_of_nat (n div 10) @ [''0123456789'' ! (n mod 10)])"
  by pat_completeness auto
termination
  by (relation "measure id") auto

text \<open>
  \<^verbatim>\<open>str.trim().split(' ')\<close>. A character of a string stands for a code unit
  below 256; of these \<^verbatim>\<open>trim\<close> strips the blank, the tab, the line feed, the
  vertical tab, the form feed, the carriage return and the no-break space. Splitting the
  empty string gives one empty string.
\<close>

definition is_space :: "char \<Rightarrow> bool" where
  "is_space c =
     (c \<in> set [CHR '' '', CHR 0x09, CHR 0x0A, CHR 0x0B, CHR 0x0C, CHR 0x0D, CHR 0xA0])"

definition trim :: "string \<Rightarrow> string" where
  "trim s = rev (dropWhile is_space (rev (dropWhile is_space s)))"

fun split_on :: "char \<Rightarrow> string \<Rightarrow> string list" where
  "split_on c [] = [[]]"
| "split_on c (x # xs) =
     (if x = c then [] # split_on c xs
      else (case split_on c xs of
              [] \<Rightarrow> [[x]]
            | y # ys \<Rightarrow> (x # y) # ys))"

text \<open>
  \<^verbatim>\<open>forEach\<close> with a callback that can raise: the first exception ends the loop.
\<close>

fun forEach_error :: "('s \<Rightarrow> 'a \<Rightarrow> js_error + 's) \<Rightarrow> 's \<Rightarrow> 'a list \<Rightarrow> js_error + 's" where
  "forEach_error f acc [] = Inr acc"
| "forEach_error f acc (x # xs) =
     (case f acc x of Inl e \<Rightarrow> Inl e | Inr acc' \<Rightarrow> forEach_error f acc' xs)"

section \<open>Grammar input and BaseGenerator.processGrammar\<close>

text \<open>
  The structured grammar: \<^verbatim>\<open>{ bnf: { start, tokens, productions: [{symbol, handle}] } }\<close>.
  A field that is absent is \<open>None\<close>. The tokens are an array of names or one string
  of names separated by blanks. A grammar can also be given as source text.
\<close>

record production_spec =
  symbol :: string
  handle :: "string list"

datatype tokens_spec = TokensString string | TokensArray "string list"

record bnf_spec =
  start :: "string option"
  tokens :: "tokens_spec option"
  productions :: "production_spec list option"

datatype grammar =
    GrammarString string
  | GrammarObject (g_bnf: "bnf_spec option") (g_ebnf: "bnf_spec option")



text \<open>
  The value of \<^verbatim>\<open>this.nonterminals\<close>. The constructors of BaseGenerator and
  SLRGenerator make it a \<^verbatim>\<open>Set\<close>; the constructors of LALRGenerator,
  LR1Generator and LLGenerator replace it by the object \<^verbatim>\<open>{}\<close>, and no method
  of the generators gives that object a property. A \<^verbatim>\<open>Set\<close> has the methods
  \<^verbatim>\<open>add\<close>, \<^verbatim>\<open>has\<close> and \<^verbatim>\<open>forEach\<close>; the object has none of
  them, so calling one on it raises a TypeError.
\<close>

datatype nonterminals_value = NonterminalSet "string list" | NonterminalObject

definition nonterminals_has :: "nonterminals_value \<Rightarrow> string \<Rightarrow> js_error + bool" where
  "nonterminals_has n sb =
     (case n of
        NonterminalSet s \<Rightarrow> Inr (sb \<in> set s)
      | NonterminalObject \<Rightarrow> Inl TypeError)"

text \<open>
  The fields of a generator that the table construction reads and writes. A production
  is stored as the array \<^verbatim>\<open>[symbol, handle]\<close>. \<open>firstSets\<close> and
  \<open>followSets\<close> are \<^verbatim>\<open>Map\<close>s from a symbol to a \<^verbatim>\<open>Set\<close> of
  symbols, where the empty string stands for \<open>\<epsilon>\<close>. \<open>this_start\<close> is
  \<^verbatim>\<open>this.grammar.bnf.start\<close>, \<open>None\<close> also when the grammar has no
  \<^verbatim>\<open>bnf\<close>.
\<close>

type_synonym production = "string \<times> string list"

record generator =
  terminals :: "string list"
  nonterminals :: nonterminals_value
  this_productions :: "production list"
  firstSets :: "(string \<times> string list) list"
  followSets :: "(string \<times> string list) list"
  this_start :: "string option"

text \<open>
  \<^verbatim>\<open>new SLRGenerator(grammar)\<close>, and \<^verbatim>\<open>new LALRGenerator(grammar)\<close>, which
  differs in \<^verbatim>\<open>this.nonterminals = {}\<close>, as \<^verbatim>\<open>new LR1Generator(grammar)\<close>
  and \<^verbatim>\<open>new LLGenerator(grammar)\<close> do.
\<close>

definition new_generator :: "grammar \<Rightarrow> generator" where
  "new_generator g =
     \<lparr>terminals = [], nonterminals = NonterminalSet [], this_productions = [],
      firstSets = [], followSets = [],
      this_start = (case g of
                      GrammarObject (Some b) _ \<Rightarrow> start b
                    | _ \<Rightarrow> None)\<rparr>"


definition parseGrammar :: "string \<Rightarrow> js_error + grammar" where
  "parseGrammar grammarString = Inl (Error ''parseGrammar() must be implemented by subclass'')"

definition validateGrammar :: "grammar \<Rightarrow> js_error + unit" where
  "validateGrammar g =
     (case g of
        GrammarObject None None \<Rightarrow> Inl (Error ''Grammar must have either bnf or ebnf property'')
      | _ \<Rightarrow> Inr ())"

text \<open>
  \<^verbatim>\<open>processTokens\<close>: a falsy argument (absent, or the empty string) changes
  nothing; otherwise the terminals are replaced and every terminal gets the FIRST set
  that holds only itself.
\<close>

definition processTokens :: "generator \<Rightarrow> tokens_spec option \<Rightarrow> generator" where
  "processTokens this toks =
     (case toks of
        None \<Rightarrow> this
      | Some (TokensString []) \<Rightarrow> this
      | Some t \<Rightarrow>
          (let ts = (case t of TokensString s \<Rightarrow> split_on CHR '' '' (trim s)
                     | TokensArray a \<Rightarrow> a)
           in this\<lparr>terminals := ts,
                   firstSets := foldl (\<lambda>m terminal. AList.update terminal [terminal] m)
                                  (firstSets this) ts\<rparr>))"

definition addProduction :: "generator \<Rightarrow> production \<Rightarrow> generator" where
  "addProduction this p = this\<lparr>this_productions := this_productions this @ [p]\<rparr>"

text \<open>
  The body of \<^verbatim>\<open>grammar.bnf.productions.forEach\<close> in \<^verbatim>\<open>processGrammar\<close>:
  \<^verbatim>\<open>this.nonterminals.add(production.symbol)\<close>, then \<^verbatim>\<open>addProduction\<close>.
\<close>

definition collect_production :: "generator \<Rightarrow> production_spec \<Rightarrow> js_error + generator" where
  "collect_production t p =
     (case nonterminals t of
        NonterminalSet s \<Rightarrow>
          Inr (addProduction (t\<lparr>nonterminals := NonterminalSet (Set_add s (symbol p))\<rparr>)
                 (symbol p, handle p))
      | NonterminalObject \<Rightarrow> Inl TypeError)"

text \<open>
  \<^verbatim>\<open>processGrammar\<close>: a string grammar goes to \<^verbatim>\<open>parseGrammar\<close>, which
  raises; then \<^verbatim>\<open>validateGrammar\<close>; then the tokens, the productions (an absent
  list is skipped, an empty one is gone through) and the empty FIRST and FOLLOW sets of
  the nonterminals, by \<^verbatim>\<open>this.nonterminals.forEach\<close>. No other check is made.
\<close>

definition processGrammar :: "generator \<Rightarrow> grammar \<Rightarrow> js_error + generator" where
  "processGrammar this g =
     (case (case g of GrammarString s \<Rightarrow> parseGrammar s | _ \<Rightarrow> Inr g) of
        Inl e \<Rightarrow> Inl e
      | Inr grammar \<Rightarrow>
          (case validateGrammar grammar of
             Inl e \<Rightarrow> Inl e
           | Inr _ \<Rightarrow>
               (let b = (case grammar of GrammarObject b _ \<Rightarrow> b | _ \<Rightarrow> None);
                    this1 = (case b of
                               Some bn \<Rightarrow>
                                 (case tokens bn of
                                    None \<Rightarrow> this
                                  | Some (TokensString []) \<Rightarrow> this
                                  | Some t \<Rightarrow> processTokens this (Some t))
                             | None \<Rightarrow> this);
                    collected = (case b of
                                   Some bn \<Rightarrow>
                                     (case productions bn of
                                        None \<Rightarrow> Inr this1
                                      | Some ps \<Rightarrow> forEach_error collect_production this1 ps)
                                 | None \<Rightarrow> Inr this1)
                in case collected of
                     Inl e \<Rightarrow> Inl e
                   | Inr this2 \<Rightarrow>
                       (case nonterminals this2 of
                          NonterminalObject \<Rightarrow> Inl TypeError
                        | NonterminalSet s \<Rightarrow>
                            Inr (foldl (\<lambda>t nonterminal.
                                   t\<lparr>firstSets := AList.update nonterminal [] (firstSets t),
                                     followSets := AList.update nonterminal [] (followSets t)\<rparr>)
                                 this2 s)))))"

section \<open>Items, keys and closure (SLRGenerator)\<close>

text \<open>
  \<^verbatim>\<open>utils/constants.js\<close>: \<^verbatim>\<open>SpecialSymbols = {EOF: '$end', ACCEPT: '$accept',
  ERROR: 'error'}\<close>. There is no \<^verbatim>\<open>SpecialSymbols.EPSILON\<close>: reading it gives
  \<^verbatim>\<open>undefined\<close>, which differs from every string.
\<close>

definition SpecialSymbols_EOF :: string where
  "SpecialSymbols_EOF = ''$end''"

text \<open>
  An item \<^verbatim>\<open>{production, dotPosition, lookahead}\<close>; the lookahead is a
  \<^verbatim>\<open>Set\<close> of symbols. A state is an array of items that carries, once a
  transition has been recorded, the property \<^verbatim>\<open>transitions\<close>, a \<^verbatim>\<open>Map\<close>
  from a symbol to the index of the next state.
\<close>

record item =
  production :: production
  dotPosition :: nat
  lookahead :: "string list"

record state =
  items :: "item list"
  transitions :: "(string \<times> nat) list option"

definition itemKey :: "item \<Rightarrow> string" where
  "itemKey it =
     fst (production it) @ ''->'' @ join '' '' (snd (production it)) @ ''|'' @
     string_of_nat (dotPosition it) @ ''|'' @ join '','' (sort (lookahead it))"

definition stateKey :: "item list \<Rightarrow> string" where
  "stateKey st = join ''|'' (sort (map itemKey st))"

text \<open>\<^verbatim>\<open>hasItem(state, item)\<close> on an array: \<^verbatim>\<open>state.some(...)\<close>.\<close>

definition hasItem :: "item list \<Rightarrow> item \<Rightarrow> bool" where
  "hasItem st it = list_ex (\<lambda>i. itemKey i = itemKey it) st"

text \<open>
  In \<^verbatim>\<open>closure\<close> the first argument of \<^verbatim>\<open>hasItem\<close> is the \<^verbatim>\<open>Set\<close>
  \<^verbatim>\<open>closure\<close>. A \<^verbatim>\<open>Set\<close> has no method \<^verbatim>\<open>some\<close>, so the call
  \<^verbatim>\<open>state.some(...)\<close> raises a TypeError.
\<close>

definition hasItem_Set :: "item list \<Rightarrow> item \<Rightarrow> js_error + bool" where
  "hasItem_Set closure_set it = Inl TypeError"

text \<open>
  \<^verbatim>\<open>BaseGenerator.computeRemainingFirst\<close>. The loop goes over the symbols, skips a
  symbol that has no FIRST set, and stops at the first symbol whose FIRST set lacks
  \<open>\<epsilon>\<close>.
\<close>

fun first_of_symbols ::
  "(string \<times> string list) list \<Rightarrow> string list \<Rightarrow> string list \<Rightarrow> string list \<times> bool" where
  "first_of_symbols fs [] result = (result, True)"
| "first_of_symbols fs (sb # rest) result =
     (case map_of fs sb of
        None \<Rightarrow> first_of_symbols fs rest result
      | Some symbolFirst \<Rightarrow>
          (let result' = foldl Set_add result (filter (\<lambda>s. s \<noteq> []) symbolFirst)
           in if [] \<notin> set symbolFirst then (result', False)
              else first_of_symbols fs rest result'))"

definition computeRemainingFirst ::
  "(string \<times> string list) list \<Rightarrow> string list \<Rightarrow> string list" where
  "computeRemainingFirst fs symbols =
     (if symbols = [] then [[]]
      else (let (result, allNullable) = first_of_symbols fs symbols []
            in if allNullable then Set_add result [] else result))"

text \<open>
  The symbol after the dot, \<^verbatim>\<open>rhs[item.dotPosition]\<close>: \<open>None\<close> when the dot
  is at the end (\<^verbatim>\<open>undefined\<close>) and when the symbol is the empty string, the two
  cases in which \<^verbatim>\<open>!symbol\<close> holds.
\<close>

definition symbol_after_dot :: "item \<Rightarrow> string option" where
  "symbol_after_dot it =
     (let rhs = snd (production it)
      in if dotPosition it < length rhs \<and> rhs ! dotPosition it \<noteq> []
         then Some (rhs ! dotPosition it) else None)"

text \<open>
  The body of \<^verbatim>\<open>.forEach(production => ...)\<close> in \<^verbatim>\<open>SLRGenerator.closure\<close>,
  over the productions of the symbol after the dot. Every element of \<^verbatim>\<open>firstSet\<close>
  differs from \<^verbatim>\<open>SpecialSymbols.EPSILON\<close>, so the new item's lookahead is the whole
  of \<^verbatim>\<open>firstSet\<close>. The result is the set \<^verbatim>\<open>closure\<close> and the queue.
\<close>

fun closure_forEach ::
  "item list \<Rightarrow> item list \<Rightarrow> string list \<Rightarrow> production list \<Rightarrow>
   js_error + (item list \<times> item list)" where
  "closure_forEach closure_set queue firstSet [] = Inr (closure_set, queue)"
| "closure_forEach closure_set queue firstSet (p # ps) =
     (let newItem = \<lparr>production = p, dotPosition = 0,
                     lookahead = foldl Set_add [] firstSet\<rparr>
      in case hasItem_Set closure_set newItem of
           Inl e \<Rightarrow> Inl e
         | Inr found \<Rightarrow>
             if \<not> found
             then closure_forEach (closure_set @ [newItem]) (queue @ [newItem]) firstSet ps
             else closure_forEach closure_set queue firstSet ps)"

lemma closure_forEach_queue:
  "closure_forEach c q f ps = Inr (c', q') \<Longrightarrow> q' = q \<and> c' = c"
  by (cases ps) (simp_all add: hasItem_Set_def)

text \<open>
  \<^verbatim>\<open>SLRGenerator.closure(items)\<close>: the \<^verbatim>\<open>while (queue.length > 0)\<close> loop. The
  items given are distinct objects, so \<^verbatim>\<open>new Set(items)\<close> holds them all.
\<close>

function closure_loop ::
  "generator \<Rightarrow> item list \<Rightarrow> item list \<Rightarrow> js_error + item list" where
  "closure_loop this closure_set [] = Inr closure_set"
| "closure_loop this closure_set (it # queue) =
     (case symbol_after_dot it of
        None \<Rightarrow> closure_loop this closure_set queue
      | Some sb \<Rightarrow>
          (case nonterminals_has (nonterminals this) sb of
             Inl e \<Rightarrow> Inl e
           | Inr member \<Rightarrow>
               if \<not> member then closure_loop this closure_set queue
               else (let firstSet = computeRemainingFirst (firstSets this)
                                      (drop (dotPosition it + 1) (snd (production it)))
                     in case closure_forEach closure_set queue firstSet
                               (filter (\<lambda>p. fst p = sb) (this_productions this)) of
                          Inl e \<Rightarrow> Inl e
                        | Inr (closure_set', queue') \<Rightarrow>
                            closure_loop this closure_set' queue')))"
  by pat_completeness auto
termination
  by (relation "measure (\<lambda>(this, c, q). length q)")
    (auto dest: closure_forEach_queue)

definition closure :: "generator \<Rightarrow> item list \<Rightarrow> js_error + item list" where
  "closure this its = closure_loop this its its"

text \<open>
  \<^verbatim>\<open>computeTransitions(state)\<close>: a \<^verbatim>\<open>Map\<close> from each symbol after a dot to the
  items with the dot moved over it, in the order of the items.
\<close>

definition computeTransitions :: "item list \<Rightarrow> (string \<times> item list) list" where
  "computeTransitions st =
     foldl (\<lambda>tmap it.
        case symbol_after_dot it of
          None \<Rightarrow> tmap
        | Some sb \<Rightarrow>
            (let nextItem = it\<lparr>dotPosition := dotPosition it + 1\<rparr>;
                 old = (case map_of tmap sb of None \<Rightarrow> [] | Some l \<Rightarrow> l)
             in AList.update sb (old @ [nextItem]) tmap))
       [] st"

section \<open>The ACTION table (SLRGenerator.parseTable)\<close>

text \<open>
  \<^verbatim>\<open>Array.prototype.indexOf\<close>: the first index, or \<open>-1\<close>. The code compares
  object identity: an item refers to one of the arrays of \<^verbatim>\<open>this.productions\<close>.
  The model compares values, which is the same as long as the productions of the grammar
  are pairwise different; that is assumed here.
\<close>

definition indexOf :: "'a list \<Rightarrow> 'a \<Rightarrow> int" where
  "indexOf xs x =
     (if x \<in> set xs then int (length (takeWhile (\<lambda>y. y \<noteq> x) xs)) else - 1)"

type_synonym row = "(string \<times> action) list"
type_synonym resolution = "nat \<times> string \<times> action"

text \<open>
  \<^verbatim>\<open>resolveConflict(production, action)\<close>, the same text in the SLR, LALR and LR(1)
  generators: \<^verbatim>\<open>// Simple conflict resolution: prefer shift over reduce\<close>.
\<close>

definition resolveConflict :: "production list \<Rightarrow> production \<Rightarrow> action \<Rightarrow> action" where
  "resolveConflict prods p a =
     (case a of Shift t \<Rightarrow> a | _ \<Rightarrow> Reduce (indexOf prods p))"

text \<open>
  A row of the table is the object \<^verbatim>\<open>stateTable\<close>, kept as the association list
  of its own properties. The body of \<^verbatim>\<open>item.lookahead.forEach(lookahead => ...)\<close>:
  a cell that is already set stays as it is, one conflict is counted and the result of
  \<^verbatim>\<open>resolveConflict\<close> is appended to \<^verbatim>\<open>this.resolutions\<close>; a free cell gets
  the reduce action. \<^verbatim>\<open>stateTable[lookahead]\<close> is read through the prototype chain:
  for a lookahead that names a property of \<^verbatim>\<open>Object.prototype\<close> and has no cell,
  the value is that property, truthy and no shift action, so a conflict is counted, the
  reduce action is recorded as its resolution and no cell is written. The state threaded
  through is the row, \<^verbatim>\<open>this.conflicts\<close> and \<^verbatim>\<open>this.resolutions\<close>.
\<close>

definition add_reduce ::
  "production list \<Rightarrow> nat \<Rightarrow> item \<Rightarrow> row \<times> nat \<times> resolution list \<Rightarrow> string \<Rightarrow>
   row \<times> nat \<times> resolution list" where
  "add_reduce prods stateIndex it acc la =
     (case acc of (stateTable, conflicts, resolutions) \<Rightarrow>
        (case map_of stateTable la of
           Some existing \<Rightarrow>
             (stateTable, conflicts + 1,
              resolutions @ [(stateIndex, la, resolveConflict prods (production it) existing)])
         | None \<Rightarrow>
             if inherited_property la
             then (stateTable, conflicts + 1,
                   resolutions @ [(stateIndex, la, Reduce (indexOf prods (production it)))])
             else (AList.update la (Reduce (indexOf prods (production it))) stateTable,
                   conflicts, resolutions)))"

text \<open>
  The shift actions of a state: \<^verbatim>\<open>stateTable[symbol] = [SHIFT, nextState]\<close> for
  every transition. The assignment makes an own property for every name but
  \<^verbatim>\<open>__proto__\<close>; a symbol on which a state has a transition is taken to differ
  from that name.
\<close>

definition add_shifts :: "(string \<times> nat) list option \<Rightarrow> row" where
  "add_shifts tmap =
     (case tmap of
        None \<Rightarrow> []
      | Some tr \<Rightarrow> foldl (\<lambda>stateTable (sb, nextState). AList.update sb (Shift nextState) stateTable) [] tr)"

definition add_reduces ::
  "production list \<Rightarrow> nat \<Rightarrow> row \<times> nat \<times> resolution list \<Rightarrow> item \<Rightarrow>
   row \<times> nat \<times> resolution list" where
  "add_reduces prods stateIndex acc it =
     (if dotPosition it = length (snd (production it))
      then foldl (add_reduce prods stateIndex it) acc (lookahead it)
      else acc)"

text \<open>The row of one state: the shift actions first, then the reduce actions.\<close>

definition state_row ::
  "production list \<Rightarrow> nat \<Rightarrow> state \<Rightarrow> nat \<times> resolution list \<Rightarrow> row \<times> nat \<times> resolution list" where
  "state_row prods stateIndex st cr =
     foldl (add_reduces prods stateIndex) (add_shifts (transitions st), fst cr, snd cr) (items st)"

text \<open>
  \<^verbatim>\<open>parseTable(states)\<close>: the table, with the conflict count and the resolutions of
  the generator after the call.
\<close>

fun parseTable_from ::
  "production list \<Rightarrow> nat \<Rightarrow> state list \<Rightarrow> nat \<times> resolution list \<Rightarrow>
   row list \<times> nat \<times> resolution list" where
  "parseTable_from prods stateIndex [] cr = ([], cr)"
| "parseTable_from prods stateIndex (st # sts) cr =
     (case state_row prods stateIndex st cr of
        (stateTable, cr') \<Rightarrow>
          (case parseTable_from prods (stateIndex + 1) sts cr' of
             (table, cr'') \<Rightarrow> (stateTable # table, cr'')))"

definition parseTable ::
  "production list \<Rightarrow> state list \<Rightarrow> nat \<times> resolution list \<Rightarrow> row list \<times> nat \<times> resolution list" where
  "parseTable prods states cr = parseTable_from prods 0 states cr"

text \<open>
  \<^verbatim>\<open>findDefaults(table)\<close>: the object \<^verbatim>\<open>defaults\<close>, as the list of its entries.
\<close>

definition default_of_row :: "row \<Rightarrow> action option" where
  "default_of_row r =
     (case map snd r of
        [a] \<Rightarrow> (case a of Reduce p \<Rightarrow> Some a | _ \<Rightarrow> None)
      | _ \<Rightarrow> None)"

definition findDefaults :: "row list \<Rightarrow> (nat \<times> action) list" where
  "findDefaults table =
     concat (map (\<lambda>(stateIndex, r).
                    case default_of_row r of None \<Rightarrow> [] | Some a \<Rightarrow> [(stateIndex, a)])
               (enumerate 0 table))"

section \<open>FIRST and FOLLOW sets (preprocess of SLRGenerator and LALRGenerator)\<close>

text \<open>
  \<^verbatim>\<open>computeProductionFirst(handle)\<close>: the loop of \<^verbatim>\<open>computeRemainingFirst\<close>
  without the separate case of the empty sequence.
\<close>

definition computeProductionFirst ::
  "(string \<times> string list) list \<Rightarrow> string list \<Rightarrow> string list" where
  "computeProductionFirst fs hdl =
     (let (result, allNullable) = first_of_symbols fs hdl []
      in if allNullable then Set_add result [] else result)"

text \<open>
  The body of \<^verbatim>\<open>this.productions.forEach\<close> in \<^verbatim>\<open>computeFirstSets\<close>: the new
  symbols are added to the FIRST set of the left-hand side, and \<^verbatim>\<open>changed\<close> is set
  when one of them is new. Without a FIRST set for the left-hand side,
  \<^verbatim>\<open>lhsFirst.has\<close> raises a TypeError.
\<close>

definition first_sets_step ::
  "(string \<times> string list) list \<times> bool \<Rightarrow> production \<Rightarrow>
   js_error + ((string \<times> string list) list \<times> bool)" where
  "first_sets_step acc p =
     (case acc of (fs, changed) \<Rightarrow>
        (let newSymbols = computeProductionFirst fs (snd p)
         in case map_of fs (fst p) of
              None \<Rightarrow> if newSymbols = [] then Inr (fs, changed) else Inl TypeError
            | Some lhsFirst \<Rightarrow>
                Inr (AList.update (fst p) (foldl Set_add lhsFirst newSymbols) fs,
                     changed \<or> list_ex (\<lambda>x. x \<notin> set lhsFirst) newSymbols)))"

partial_function (option) computeFirstSets_loop ::
  "production list \<Rightarrow> (string \<times> string list) list \<Rightarrow>
   (js_error + (string \<times> string list) list) option" where
  "computeFirstSets_loop prods fs =
     (case forEach_error first_sets_step (fs, False) prods of
        Inl e \<Rightarrow> Some (Inl e)
      | Inr (fs', changed) \<Rightarrow>
          if changed then computeFirstSets_loop prods fs' else Some (Inr fs'))"

declare computeFirstSets_loop.simps [code]

text \<open>
  \<^verbatim>\<open>computeFirstSets\<close>, the same text in SLRGenerator and LALRGenerator: the FIRST
  sets of the terminals and of the nonterminals (\<^verbatim>\<open>this.nonterminals.forEach\<close>) are
  set up, then the loop runs.
\<close>

definition computeFirstSets :: "generator \<Rightarrow> (js_error + generator) option" where
  "computeFirstSets this =
     (case nonterminals this of
        NonterminalObject \<Rightarrow> Some (Inl TypeError)
      | NonterminalSet s \<Rightarrow>
          (let fs0 = foldl (\<lambda>m terminal. AList.update terminal [terminal] m)
                       (firstSets this) (terminals this);
               fs1 = foldl (\<lambda>m nonterminal. AList.update nonterminal [] m) fs0 s
           in case computeFirstSets_loop (this_productions this) fs1 of
                None \<Rightarrow> None
              | Some (Inl e) \<Rightarrow> Some (Inl e)
              | Some (Inr fs) \<Rightarrow> Some (Inr (this\<lparr>firstSets := fs\<rparr>))))"

text \<open>
  The body of the loop over the positions of a right-hand side in
  \<^verbatim>\<open>computeFollowSets\<close>, for the symbol at position \<open>i\<close>: first the symbols
  of the FIRST set of the trailer other than \<open>\<epsilon>\<close> are added to the FOLLOW set of
  the symbol, then, when the trailer can be empty, the FOLLOW set of the left-hand
  side as it is by then. A FOLLOW set that is missing raises a TypeError where it is
  used: \<^verbatim>\<open>symbolFollow.has\<close> for the symbol, the \<^verbatim>\<open>for...of\<close> for the
  left-hand side.
\<close>

definition follow_sets_position ::
  "generator \<Rightarrow> production \<Rightarrow> (string \<times> string list) list \<times> bool \<Rightarrow> nat \<Rightarrow>
   js_error + ((string \<times> string list) list \<times> bool)" where
  "follow_sets_position this p acc i =
     (case acc of (fo, changed) \<Rightarrow>
        (let sb = snd p ! i
         in case nonterminals_has (nonterminals this) sb of
              Inl e \<Rightarrow> Inl e
            | Inr False \<Rightarrow> Inr (fo, changed)
            | Inr True \<Rightarrow>
              (let trailerFirst = computeProductionFirst (firstSets this) (drop (i + 1) (snd p));
                   new1 = filter (\<lambda>x. x \<noteq> []) trailerFirst;
                   inherits = ([] \<in> set trailerFirst \<or> i = length (snd p) - 1)
               in case map_of fo sb of
                    None \<Rightarrow>
                      if new1 \<noteq> [] then Inl TypeError
                      else if inherits
                      then (case map_of fo (fst p) of
                              None \<Rightarrow> Inl TypeError
                            | Some lhsFollow \<Rightarrow>
                                if lhsFollow = [] then Inr (fo, changed) else Inl TypeError)
                      else Inr (fo, changed)
                  | Some symbolFollow \<Rightarrow>
                      (let follow1 = foldl Set_add symbolFollow new1;
                           changed1 = (changed \<or> list_ex (\<lambda>x. x \<notin> set symbolFollow) new1);
                           fo1 = AList.update sb follow1 fo
                       in if inherits
                          then (case map_of fo1 (fst p) of
                                  None \<Rightarrow> Inl TypeError
                                | Some lhsFollow \<Rightarrow>
                                    Inr (AList.update sb (foldl Set_add follow1 lhsFollow) fo1,
                                         changed1 \<or> list_ex (\<lambda>x. x \<notin> set follow1) lhsFollow))
                          else Inr (fo1, changed1)))))"

definition follow_sets_step ::
  "generator \<Rightarrow> (string \<times> string list) list \<times> bool \<Rightarrow> production \<Rightarrow>
   js_error + ((string \<times> string list) list \<times> bool)" where
  "follow_sets_step this acc p =
     forEach_error (follow_sets_position this p) acc [0 ..< length (snd p)]"

partial_function (option) computeFollowSets_loop ::
  "generator \<Rightarrow> (string \<times> string list) list \<Rightarrow>
   (js_error + (string \<times> string list) list) option" where
  "computeFollowSets_loop this fo =
     (case forEach_error (follow_sets_step this) (fo, False) (this_productions this) of
        Inl e \<Rightarrow> Some (Inl e)
      | Inr (fo', changed) \<Rightarrow>
          if changed then computeFollowSets_loop this fo' else Some (Inr fo'))"

declare computeFollowSets_loop.simps [code]

text \<open>
  \<^verbatim>\<open>computeFollowSets\<close>, the same text in SLRGenerator and LALRGenerator.
  \<^verbatim>\<open>this.followSets.get(startSymbol).add('$')\<close> raises a TypeError when the start
  symbol is absent or is no nonterminal (and so does reading
  \<^verbatim>\<open>this.grammar.bnf.start\<close> of a grammar without \<^verbatim>\<open>bnf\<close>).
\<close>

definition computeFollowSets :: "generator \<Rightarrow> (js_error + generator) option" where
  "computeFollowSets this =
     (case nonterminals this of
        NonterminalObject \<Rightarrow> Some (Inl TypeError)
      | NonterminalSet s \<Rightarrow>
          (let fo0 = foldl (\<lambda>m nonterminal. AList.update nonterminal [] m) (followSets this) s
           in case (case this_start this of
                      None \<Rightarrow> None
                    | Some startSymbol \<Rightarrow>
                        (case map_of fo0 startSymbol of
                           None \<Rightarrow> None
                         | Some startFollow \<Rightarrow>
                             Some (AList.update startSymbol (Set_add startFollow ''$'') fo0))) of
                None \<Rightarrow> Some (Inl TypeError)
              | Some fo1 \<Rightarrow>
                  (case computeFollowSets_loop this fo1 of
                     None \<Rightarrow> None
                   | Some (Inl e) \<Rightarrow> Some (Inl e)
                   | Some (Inr fo) \<Rightarrow> Some (Inr (this\<lparr>followSets := fo\<rparr>)))))"

text \<open>
  \<^verbatim>\<open>preprocess()\<close>, the same three calls in SLRGenerator and LALRGenerator, on a
  generator as the constructor left it.
\<close>

definition preprocess_from :: "generator \<Rightarrow> grammar \<Rightarrow> (js_error + generator) option" where
  "preprocess_from this g =
     (case processGrammar this g of
        Inl e \<Rightarrow> Some (Inl e)
      | Inr this1 \<Rightarrow>
          (case computeFirstSets this1 of
             None \<Rightarrow> None
           | Some (Inl e) \<Rightarrow> Some (Inl e)
           | Some (Inr this2) \<Rightarrow> computeFollowSets this2))"

text \<open>\<^verbatim>\<open>new SLRGenerator(grammar).preprocess()\<close>.\<close>

definition preprocess :: "grammar \<Rightarrow> (js_error + generator) option" where
  "preprocess g = preprocess_from (new_generator g) g"


section \<open>The canonical collection (SLRGenerator.canonicalCollection, buildTable)\<close>

text \<open>
  The body of \<^verbatim>\<open>for (const [symbol, nextItems] of transitions)\<close> for the state
  at index \<open>i\<close>: a state whose key is new is appended, and the transition is
  recorded in the \<^verbatim>\<open>transitions\<close> of state \<open>i\<close>. \<open>stateMap\<close> maps the key
  of a state to its index.
\<close>

definition collection_step ::
  "generator \<Rightarrow> nat \<Rightarrow> state list \<times> (string \<times> nat) list \<Rightarrow> string \<times> item list \<Rightarrow>
   js_error + (state list \<times> (string \<times> nat) list)" where
  "collection_step this i acc tr =
     (case acc of (states, stateMap) \<Rightarrow>
      case tr of (sb, nextItems) \<Rightarrow>
        (case closure this nextItems of
           Inl e \<Rightarrow> Inl e
         | Inr nextState \<Rightarrow>
             (let key = stateKey nextState;
                  known = map_of stateMap key;
                  stateMap' = (if known = None then AList.update key (length states) stateMap
                               else stateMap);
                  states' = (if known = None
                             then states @ [\<lparr>items = nextState, transitions = None\<rparr>]
                             else states);
                  nextStateIndex = (case known of None \<Rightarrow> length states | Some n \<Rightarrow> n);
                  st = states' ! i;
                  old = (case transitions st of None \<Rightarrow> [] | Some m \<Rightarrow> m)
              in Inr (states'[i := st\<lparr>transitions := Some (AList.update sb nextStateIndex old)\<rparr>],
                      stateMap'))))"

fun collection_steps ::
  "generator \<Rightarrow> nat \<Rightarrow> state list \<times> (string \<times> nat) list \<Rightarrow> (string \<times> item list) list \<Rightarrow>
   js_error + (state list \<times> (string \<times> nat) list)" where
  "collection_steps this i acc [] = Inr acc"
| "collection_steps this i acc (tr # trs) =
     (case collection_step this i acc tr of
        Inl e \<Rightarrow> Inl e
      | Inr acc' \<Rightarrow> collection_steps this i acc' trs)"

text \<open>
  The loop \<^verbatim>\<open>for (let i = 0; i < states.length; i++)\<close>, in which \<^verbatim>\<open>states\<close>
  grows. \<open>None\<close> stands for a loop that does not end.
\<close>

partial_function (option) canonicalCollection_loop ::
  "generator \<Rightarrow> nat \<Rightarrow> state list \<Rightarrow> (string \<times> nat) list \<Rightarrow> (js_error + state list) option" where
  "canonicalCollection_loop this i states stateMap =
     (if i < length states
      then (case collection_steps this i (states, stateMap)
                   (computeTransitions (items (states ! i))) of
              Inl e \<Rightarrow> Some (Inl e)
            | Inr (states', stateMap') \<Rightarrow> canonicalCollection_loop this (i + 1) states' stateMap')
      else Some (Inr states))"

declare canonicalCollection_loop.simps [code]

text \<open>
  \<^verbatim>\<open>canonicalCollection()\<close>. The initial item is made of \<^verbatim>\<open>this.productions[0]\<close>;
  without productions that is \<^verbatim>\<open>undefined\<close>, and \<^verbatim>\<open>closure\<close> raises a TypeError
  when it takes the production apart.
\<close>

definition canonicalCollection :: "generator \<Rightarrow> (js_error + state list) option" where
  "canonicalCollection this =
     (case this_productions this of
        [] \<Rightarrow> Some (Inl TypeError)
      | p0 # _ \<Rightarrow>
          (case closure this [\<lparr>production = p0, dotPosition = 0,
                                lookahead = [SpecialSymbols_EOF]\<rparr>] of
             Inl e \<Rightarrow> Some (Inl e)
           | Inr initialState \<Rightarrow>
               canonicalCollection_loop this 0 [\<lparr>items = initialState, transitions = None\<rparr>]
                 [(stateKey initialState, 0)]))"

text \<open>
  \<^verbatim>\<open>SLRGenerator.buildTable()\<close>: the states, the table, the default actions and the
  number of conflicts.
\<close>

definition buildTable ::
  "generator \<Rightarrow> (js_error + (state list \<times> row list \<times> (nat \<times> action) list \<times> nat)) option" where
  "buildTable this =
     (case canonicalCollection this of
        None \<Rightarrow> None
      | Some (Inl e) \<Rightarrow> Some (Inl e)
      | Some (Inr states) \<Rightarrow>
          (case parseTable (this_productions this) states (0, []) of
             (table, conflicts, resolutions) \<Rightarrow>
               Some (Inr (states, table, findDefaults table, conflicts))))"

text \<open>\<^verbatim>\<open>preprocess()\<close> followed by \<^verbatim>\<open>buildTable()\<close>, as the tests call them.\<close>

definition SLR_build ::
  "grammar \<Rightarrow> (js_error + (state list \<times> row list \<times> (nat \<times> action) list \<times> nat)) option" where
  "SLR_build g =
     (case preprocess g of
        None \<Rightarrow> None
      | Some (Inl e) \<Rightarrow> Some (Inl e)
      | Some (Inr this) \<Rightarrow> buildTable this)"

section \<open>LALRGenerator: mergeStates, parseTable, closure and canonicalCollection\<close>

text \<open>
  After \<^verbatim>\<open>mergeStates\<close> the \<^verbatim>\<open>transitions\<close> of a state map a symbol either to
  a state index (a state that was taken over as it is) or to a \<^verbatim>\<open>Set\<close> of state
  indices (a state made by \<^verbatim>\<open>mergeStateSet\<close>).
\<close>

datatype target = Single nat | Several "nat list"

record merged_state =
  m_items :: "item list"
  m_transitions :: "(string \<times> target) list option"

definition getKernel :: "string option \<Rightarrow> item list \<Rightarrow> item list" where
  "getKernel grammar_start st =
     filter (\<lambda>it. dotPosition it > 0 \<or> Some (fst (production it)) = grammar_start) st"

text \<open>
  \<^verbatim>\<open>kernelKey\<close>: \<^verbatim>\<open>item.production.join(' ')\<close> joins the array
  \<^verbatim>\<open>[symbol, handle]\<close>, and the handle, an array, is printed with commas.
\<close>

definition kernelKey :: "item list \<Rightarrow> string" where
  "kernelKey kernel_items =
     join ''|'' (sort (map (\<lambda>it.
        fst (production it) @ ''->'' @
        join '' '' [fst (production it), join '','' (snd (production it))] @ ''|'' @
        string_of_nat (dotPosition it)) kernel_items))"

definition group_states :: "string option \<Rightarrow> state list \<Rightarrow> (string \<times> nat list) list" where
  "group_states grammar_start states =
     foldl (\<lambda>mergedStates (index, st).
        (let key = kernelKey (getKernel grammar_start (items st));
             old = (case map_of mergedStates key of None \<Rightarrow> [] | Some l \<Rightarrow> l)
         in AList.update key (old @ [index]) mergedStates))
       [] (enumerate 0 states)"

definition mergeStateSet :: "state list \<Rightarrow> nat list \<Rightarrow> merged_state" where
  "mergeStateSet states stateIndices =
     (case foldl (\<lambda>(mergedState, mergedTransitions) index.
              (let st = states ! index;
                   mergedState' = foldl (\<lambda>ms it. if \<not> hasItem ms it then ms @ [it] else ms)
                                    mergedState (items st);
                   mergedTransitions' =
                     (case transitions st of
                        None \<Rightarrow> mergedTransitions
                      | Some tr \<Rightarrow>
                          foldl (\<lambda>mt (sb, nextState).
                              AList.update sb
                                (Set_add (case map_of mt sb of None \<Rightarrow> [] | Some ns \<Rightarrow> ns)
                                   nextState) mt)
                            mergedTransitions tr)
               in (mergedState', mergedTransitions')))
            ([], []) stateIndices of
        (mergedState, mergedTransitions) \<Rightarrow>
          \<lparr>m_items = mergedState,
           m_transitions = Some (map (\<lambda>(sb, ns). (sb, Several ns)) mergedTransitions)\<rparr>)"

definition mergeStates :: "string option \<Rightarrow> state list \<Rightarrow> merged_state list" where
  "mergeStates grammar_start states =
     map (\<lambda>(key, stateIndices).
            if length stateIndices > 1 then mergeStateSet states stateIndices
            else (let st = states ! hd stateIndices
                  in \<lparr>m_items = items st,
                      m_transitions =
                        map_option (map (\<lambda>(sb, n). (sb, Single n))) (transitions st)\<rparr>))
       (group_states grammar_start states)"

text \<open>
  \<^verbatim>\<open>LALRGenerator.parseTable\<close>. The callback of
  \<^verbatim>\<open>state.transitions.forEach((nextState, symbol) => ...)\<close> reads
  \<^verbatim>\<open>nextStates\<close>, a name that is declared nowhere: the first transition of a state
  raises a ReferenceError. An item counts as complete when \<^verbatim>\<open>item.dotPosition ===
  item.production.length\<close>, and the production is the array \<^verbatim>\<open>[symbol, handle]\<close>,
  of length 2.
\<close>

definition LALR_add_reduces ::
  "production list \<Rightarrow> nat \<Rightarrow> row \<times> nat \<times> resolution list \<Rightarrow> item \<Rightarrow>
   row \<times> nat \<times> resolution list" where
  "LALR_add_reduces prods stateIndex acc it =
     (if dotPosition it = 2
      then foldl (add_reduce prods stateIndex it) acc (lookahead it)
      else acc)"

definition LALR_state_row ::
  "production list \<Rightarrow> nat \<Rightarrow> merged_state \<Rightarrow> nat \<times> resolution list \<Rightarrow>
   js_error + (row \<times> nat \<times> resolution list)" where
  "LALR_state_row prods stateIndex st cr =
     (case m_transitions st of
        Some (t # ts) \<Rightarrow> Inl ReferenceError
      | _ \<Rightarrow> Inr (foldl (LALR_add_reduces prods stateIndex) ([], fst cr, snd cr) (m_items st)))"

fun LALR_parseTable_from ::
  "production list \<Rightarrow> nat \<Rightarrow> merged_state list \<Rightarrow> nat \<times> resolution list \<Rightarrow>
   js_error + (row list \<times> nat \<times> resolution list)" where
  "LALR_parseTable_from prods stateIndex [] cr = Inr ([], cr)"
| "LALR_parseTable_from prods stateIndex (st # sts) cr =
     (case LALR_state_row prods stateIndex st cr of
        Inl e \<Rightarrow> Inl e
      | Inr (stateTable, cr') \<Rightarrow>
          (case LALR_parseTable_from prods (stateIndex + 1) sts cr' of
             Inl e \<Rightarrow> Inl e
           | Inr (table, cr'') \<Rightarrow> Inr (stateTable # table, cr'')))"

definition LALR_parseTable ::
  "production list \<Rightarrow> merged_state list \<Rightarrow> nat \<times> resolution list \<Rightarrow>
   js_error + (row list \<times> nat \<times> resolution list)" where
  "LALR_parseTable prods states cr = LALR_parseTable_from prods 0 states cr"

text \<open>The targets of the transitions of a state, and whether each is a state index.\<close>

definition transition_targets :: "merged_state \<Rightarrow> nat list" where
  "transition_targets st =
     (case m_transitions st of
        None \<Rightarrow> []
      | Some tr \<Rightarrow> concat (map (\<lambda>(sb, t). case t of Single n \<Rightarrow> [n] | Several ns \<Rightarrow> ns) tr))"

definition targets_valid :: "merged_state list \<Rightarrow> bool" where
  "targets_valid states =
     list_all (\<lambda>st. list_all (\<lambda>n. n < length states) (transition_targets st)) states"










section \<open>LR1Generator: items, keys and closure\<close>










section \<open>The parse loop (core/Parser.js)\<close>

text \<open>
  Semantic values are JavaScript values. A location is an object with the four position
  fields and, when the lexer tracks ranges, a \<^verbatim>\<open>range\<close>; a field that is not
  set is \<^verbatim>\<open>undefined\<close> (\<open>None\<close>).
\<close>

datatype jsval = JUndefined | JNull | JBool bool | JNum int | JStr string

record location =
  first_line :: "int option"
  last_line :: "int option"
  first_column :: "int option"
  last_column :: "int option"
  loc_range :: "(int \<times> int) option"

text \<open>
  The lexer is the token source: \<^verbatim>\<open>lex()\<close> takes the next token, sets
  \<^verbatim>\<open>yytext\<close>, \<^verbatim>\<open>yyleng\<close>, \<^verbatim>\<open>yylineno\<close> and \<^verbatim>\<open>yylloc\<close> and returns
  the token's number; at the end of the tokens it returns \<^verbatim>\<open>undefined\<close>.
  \<open>showPosition\<close> is the text of \<^verbatim>\<open>lexer.showPosition()\<close> when the lexer has that
  method.
\<close>

record token =
  tok_id :: nat
  tok_text :: string
  tok_leng :: nat
  tok_lineno :: nat
  tok_loc :: location

record lexer =
  pending :: "token list"
  yytext :: string
  yyleng :: nat
  yylineno :: nat
  yylloc :: location
  showPosition :: "string option"
  ranges :: bool

definition lex :: "lexer \<Rightarrow> nat option \<times> lexer" where
  "lex lx =
     (case pending lx of
        [] \<Rightarrow> (None, lx)
      | t # ts \<Rightarrow>
          (Some (tok_id t),
           lx\<lparr>pending := ts, yytext := tok_text t, yyleng := tok_leng t,
              yylineno := tok_lineno t, yylloc := tok_loc t\<rparr>))"

text \<open>
  A table cell is an action array or, in a column of a nonterminal, the number of the
  next state. \<^verbatim>\<open>productions_[p]\<close> is \<^verbatim>\<open>[symbol, length]\<close>.
\<close>

datatype cell = Act action | Goto nat

text \<open>
  The semantic action \<^verbatim>\<open>performAction\<close> is called with \<^verbatim>\<open>this = yyval\<close>, the
  object with the fields \<^verbatim>\<open>$\<close> and \<^verbatim>\<open>_$\<close>, and with the texts, the production
  and the two stacks. It can raise, and otherwise gives what it returned
  (\<^verbatim>\<open>undefined\<close> when it returned nothing) and the fields of \<^verbatim>\<open>yyval\<close> as it
  left them. An action that changes the stacks themselves is outside this model.
\<close>

record action_args =
  a_yytext :: string
  a_yyleng :: nat
  a_yylineno :: nat
  a_production :: int
  a_vstack :: "jsval list"
  a_lstack :: "location list"
  a_value :: jsval
  a_location :: location

record action_result =
  returned :: jsval
  r_value :: jsval
  r_location :: location

record error_hash =
  h_token :: string
  h_line :: nat
  h_expected :: "string list"
  h_recoverable :: bool

text \<open>
  The fields of the parser; \<open>parser_productions\<close> and \<open>parser_terminals\<close> are
  \<^verbatim>\<open>productions_\<close> and \<^verbatim>\<open>terminals_\<close>. \<open>yy_parseError\<close> is \<^verbatim>\<open>yy.parseError\<close> when that is
  a function: it raises (\<open>Some\<close>) or returns (\<open>None\<close>).
\<close>

record parser =
  table :: "(nat \<times> cell) list list"
  defaultActions :: "(nat \<times> action) list"
  parser_productions :: "(nat \<times> nat) list"
  parser_terminals :: "(nat \<times> string) list"
  performAction :: "action_args \<Rightarrow> js_error + action_result"
  yy_parseError :: "(string \<Rightarrow> error_hash \<Rightarrow> js_error option) option"

text \<open>
  \<^verbatim>\<open>Parser.prototype.parseError\<close>: for a recoverable error it calls
  \<^verbatim>\<open>this.trace(str)\<close>, and the class Parser defines no \<^verbatim>\<open>trace\<close>.
\<close>

definition prototype_parseError :: "string \<Rightarrow> error_hash \<Rightarrow> js_error option" where
  "prototype_parseError str hash =
     (if h_recoverable hash then Some TypeError else Some (ParserError str))"

text \<open>
  The variables of \<^verbatim>\<open>parse\<close>. The arrays have their top at the end. An entry of
  \<^verbatim>\<open>stack\<close> is a number, or \<open>None\<close> for a value that is no index of the table.
  \<^verbatim>\<open>symbol\<close> and \<^verbatim>\<open>preErrorSymbol\<close> are \<open>None\<close> when \<^verbatim>\<open>null\<close> or
  \<^verbatim>\<open>undefined\<close>.
\<close>

record pstate =
  stack :: "nat option list"
  vstack :: "jsval list"
  lstack :: "location list"
  cur_symbol :: "nat option"
  preErrorSymbol :: "nat option"
  recovering :: nat
  p_yytext :: string
  p_yyleng :: nat
  p_yylineno :: nat
  the_lexer :: lexer

definition TERROR :: nat where "TERROR = 2"
definition EOF :: nat where "EOF = 1"

definition top :: "'a list \<Rightarrow> 'a option" where
  "top xs = (if xs = [] then None else Some (last xs))"

text \<open>\<^verbatim>\<open>xs[xs.length - n]\<close>, \<^verbatim>\<open>undefined\<close> outside the array.\<close>

definition from_top :: "'a list \<Rightarrow> nat \<Rightarrow> 'a option" where
  "from_top xs n = (if 0 < n \<and> n \<le> length xs then Some (xs ! (length xs - n)) else None)"

definition table_row :: "parser \<Rightarrow> nat option \<Rightarrow> (nat \<times> cell) list option" where
  "table_row this st =
     (case st of
        None \<Rightarrow> None
      | Some n \<Rightarrow> if n < length (table this) then Some (table this ! n) else None)"

text \<open>
  Lines 79 to 88: the state on top of the stack, its default action or, after a token
  has been read when there is none, the cell of the table. The result is the action, if
  the cell holds an action array, and the state with the token read.
\<close>

definition select_action :: "parser \<Rightarrow> pstate \<Rightarrow> action option \<times> pstate" where
  "select_action this s =
     (let st = (case top (stack s) of None \<Rightarrow> None | Some e \<Rightarrow> e);
          dflt = (case st of None \<Rightarrow> None | Some n \<Rightarrow> map_of (defaultActions this) n)
      in case dflt of
           Some a \<Rightarrow> (Some a, s)
         | None \<Rightarrow>
             (let s1 = (case cur_symbol s of
                          Some sy \<Rightarrow> s
                        | None \<Rightarrow>
                            (case lex (the_lexer s) of
                               (r, lx) \<Rightarrow>
                                 s\<lparr>cur_symbol :=
                                      Some (case r of None \<Rightarrow> EOF
                                            | Some n \<Rightarrow> if n = 0 then EOF else n),
                                    the_lexer := lx\<rparr>));
                  c = (case table_row this st of
                         None \<Rightarrow> None
                       | Some r \<Rightarrow>
                           (case cur_symbol s1 of None \<Rightarrow> None | Some sy \<Rightarrow> map_of r sy))
              in (case c of Some (Act a) \<Rightarrow> Some a | _ \<Rightarrow> None, s1)))"

definition token_name :: "parser \<Rightarrow> nat option \<Rightarrow> string" where
  "token_name this sy =
     (case sy of
        None \<Rightarrow> ''undefined''
      | Some n \<Rightarrow>
          (case map_of (parser_terminals this) n of
             None \<Rightarrow> string_of_nat n
           | Some name \<Rightarrow> if name = [] then string_of_nat n else name))"

definition expected_tokens :: "parser \<Rightarrow> nat option \<Rightarrow> string list" where
  "expected_tokens this st =
     (case table_row this st of
        None \<Rightarrow> []
      | Some r \<Rightarrow>
          concat (map (\<lambda>p. case map_of (parser_terminals this) p of
                              None \<Rightarrow> []
                            | Some name \<Rightarrow>
                                if name \<noteq> [] \<and> TERROR < p
                                then [[CHR 0x27] @ name @ [CHR 0x27]] else [])
                    (sort (remdups (map fst r)))))"

definition error_message :: "parser \<Rightarrow> pstate \<Rightarrow> string list \<Rightarrow> string" where
  "error_message this s expected =
     (case showPosition (the_lexer s) of
        Some pos \<Rightarrow>
          ''Parse error on line '' @ string_of_nat (p_yylineno s + 1) @ '':'' @ [CHR 0x0A] @ pos @
          [CHR 0x0A] @ ''Expecting '' @ join '', '' expected @ '', got '' @ [CHR 0x27] @
          token_name this (cur_symbol s) @ [CHR 0x27]
      | None \<Rightarrow>
          ''Parse error on line '' @ string_of_nat (p_yylineno s + 1) @ '': Unexpected '' @
          (if cur_symbol s = Some EOF then ''end of input''
           else [CHR 0x27] @ token_name this (cur_symbol s) @ [CHR 0x27]))"

text \<open>
  \<^verbatim>\<open>popStack(n)\<close> with a number. In the error branch it is called with
  \<^verbatim>\<open>error_rule_depth\<close>, a variable that is declared and never assigned: the new
  length \<^verbatim>\<open>stack.length - 2 * undefined\<close> is no number and setting it raises a
  RangeError.
\<close>

definition popStack :: "nat option \<Rightarrow> pstate \<Rightarrow> js_error + pstate" where
  "popStack n s =
     (case n of
        None \<Rightarrow> Inl RangeError
      | Some k \<Rightarrow>
          if 2 * k \<le> length (stack s) \<and> k \<le> length (vstack s) \<and> k \<le> length (lstack s)
          then Inr (s\<lparr>stack := take (length (stack s) - 2 * k) (stack s),
                       vstack := take (length (vstack s) - k) (vstack s),
                       lstack := take (length (lstack s) - k) (lstack s)\<rparr>)
          else Inl RangeError)"

datatype step = Continue pstate | Return jsval | Throw js_error

text \<open>
  Lines 90 to 131, the branch taken when there is no action. \<^verbatim>\<open>error_rule_depth\<close>
  is \<^verbatim>\<open>undefined\<close> throughout (\<open>None\<close>; \<open>Some None\<close> would be
  \<^verbatim>\<open>false\<close>), so the error is reported as recoverable, the test
  \<^verbatim>\<open>error_rule_depth === false\<close> fails, and \<^verbatim>\<open>popStack\<close> is called with
  \<^verbatim>\<open>undefined\<close>. The action that follows is the cell of the error token.
\<close>

definition error_rule_depth :: "nat option option" where
  "error_rule_depth = None"

definition error_branch :: "parser \<Rightarrow> pstate \<Rightarrow> js_error + (cell option \<times> pstate)" where
  "error_branch this s =
     (let st = (case top (stack s) of None \<Rightarrow> None | Some e \<Rightarrow> e);
          expected = expected_tokens this st;
          errStr = (if recovering s = 0 then error_message this s expected else []);
          reported =
            (if recovering s = 0
             then (case yy_parseError this of None \<Rightarrow> prototype_parseError | Some f \<Rightarrow> f)
                    errStr
                    \<lparr>h_token = token_name this (cur_symbol s),
                     h_line = yylineno (the_lexer s),
                     h_expected = expected,
                     h_recoverable = (error_rule_depth \<noteq> Some None)\<rparr>
             else None)
      in case reported of
           Some e \<Rightarrow> Inl e
         | None \<Rightarrow>
             if error_rule_depth = Some None
             then Inl (ParserError (if errStr = []
                         then ''Parsing halted. No suitable error recovery rule available.''
                         else errStr))
             else (case popStack (case error_rule_depth of Some d \<Rightarrow> d | None \<Rightarrow> None) s of
                     Inl e \<Rightarrow> Inl e
                   | Inr s1 \<Rightarrow>
                       (let s2 = s1\<lparr>preErrorSymbol :=
                                      (if cur_symbol s1 = Some TERROR then None else cur_symbol s1),
                                    cur_symbol := Some TERROR, recovering := 3\<rparr>;
                            st2 = (case top (stack s2) of None \<Rightarrow> None | Some e \<Rightarrow> e)
                        in Inr (case table_row this st2 of
                                  None \<Rightarrow> None
                                | Some r \<Rightarrow> map_of r TERROR, s2))))"

text \<open>
  The shift case. \<^verbatim>\<open>yyloc\<close> is declared with \<^verbatim>\<open>const\<close>, so the assignment
  \<^verbatim>\<open>yyloc = lexer.yylloc\<close>, made when there is no \<^verbatim>\<open>preErrorSymbol\<close>, raises a
  TypeError.
\<close>

definition shift_case :: "pstate \<Rightarrow> nat \<Rightarrow> step" where
  "shift_case s t =
     (let s1 = s\<lparr>stack := stack s @ [cur_symbol s, Some t],
                 vstack := vstack s @ [JStr (yytext (the_lexer s))],
                 lstack := lstack s @ [yylloc (the_lexer s)],
                 cur_symbol := None\<rparr>
      in case preErrorSymbol s of
           None \<Rightarrow> Throw TypeError
         | Some pe \<Rightarrow>
             if pe = 0 then Throw TypeError
             else Continue (s1\<lparr>cur_symbol := Some pe, preErrorSymbol := None\<rparr>))"

text \<open>
  The reduce case up to the call of the semantic action: the length of the production,
  \<^verbatim>\<open>yyval.$\<close> and \<^verbatim>\<open>yyval._$\<close>. Reading a field of \<^verbatim>\<open>undefined\<close> raises a
  TypeError.
\<close>

definition reduce_args :: "parser \<Rightarrow> pstate \<Rightarrow> int \<Rightarrow> js_error + (nat \<times> nat \<times> action_args)" where
  "reduce_args this s p =
     (if p < 0 \<or> length (parser_productions this) \<le> nat p then Inl TypeError
      else
        (case parser_productions this ! nat p of (lhs, len) \<Rightarrow>
           (case from_top (lstack s) (if len = 0 then 1 else len) of
              None \<Rightarrow> Inl TypeError
            | Some l1 \<Rightarrow>
                (case from_top (lstack s) 1 of
                   None \<Rightarrow> Inl TypeError
                 | Some l2 \<Rightarrow>
                     if ranges (the_lexer s) \<and> (loc_range l1 = None \<or> loc_range l2 = None)
                     then Inl TypeError
                     else Inr (lhs, len,
                       \<lparr>a_yytext = p_yytext s, a_yyleng = p_yyleng s,
                        a_yylineno = p_yylineno s, a_production = p,
                        a_vstack = vstack s, a_lstack = lstack s,
                        a_value = (case from_top (vstack s) len of
                                     None \<Rightarrow> JUndefined | Some v \<Rightarrow> v),
                        a_location =
                          \<lparr>first_line = first_line l1, last_line = last_line l2,
                           first_column = first_column l1, last_column = last_column l2,
                           loc_range = (if ranges (the_lexer s)
                                    then (case (loc_range l1, loc_range l2) of
                                            (Some r1, Some r2) \<Rightarrow> Some (fst r1, snd r2)
                                          | _ \<Rightarrow> None)
                                    else None)\<rparr>\<rparr>)))))"

text \<open>
  The number a table entry stands for when it is pushed as the new state and used as
  an index: a number is itself, the array \<^verbatim>\<open>[3]\<close> reads as the index 3, and any
  other value is no index.
\<close>

definition state_of_cell :: "cell option \<Rightarrow> nat option" where
  "state_of_cell c =
     (case c of
        Some (Goto n) \<Rightarrow> Some n
      | Some (Act Accept) \<Rightarrow> Some 3
      | _ \<Rightarrow> None)"

text \<open>
  The reduce case. The action is called first; what it returns, if not
  \<^verbatim>\<open>undefined\<close>, is the result of \<^verbatim>\<open>parse\<close>. Then, for a production that is
  not empty, \<^verbatim>\<open>stack = stack.slice(...)\<close> assigns to a \<^verbatim>\<open>const\<close> and raises a
  TypeError. For an empty production the left-hand side, the value and the location are
  pushed, then the new state \<^verbatim>\<open>table[stack[stack.length - 2]][stack[stack.length - 1]]\<close>.
\<close>

definition reduce_case :: "parser \<Rightarrow> pstate \<Rightarrow> int \<Rightarrow> step" where
  "reduce_case this s p =
     (case reduce_args this s p of
        Inl e \<Rightarrow> Throw e
      | Inr (lhs, len, args) \<Rightarrow>
          (case performAction this args of
             Inl e \<Rightarrow> Throw e
           | Inr res \<Rightarrow>
               if returned res \<noteq> JUndefined then Return (returned res)
               else if len \<noteq> 0 then Throw TypeError
               else
                 (case table_row this (case top (stack s) of None \<Rightarrow> None | Some e \<Rightarrow> e) of
                    None \<Rightarrow> Throw TypeError
                  | Some r \<Rightarrow>
                      Continue (s\<lparr>stack := stack s @ [Some lhs, state_of_cell (map_of r lhs)],
                                  vstack := vstack s @ [r_value res],
                                  lstack := lstack s @ [r_location res]\<rparr>))))"

text \<open>
  One pass through the body of \<^verbatim>\<open>while (true)\<close>. After the error branch the
  action is the cell of the error token as it is: reading \<^verbatim>\<open>action[0]\<close> of
  \<^verbatim>\<open>undefined\<close> raises a TypeError, and for a number no case of the
  \<^verbatim>\<open>switch\<close> applies.
\<close>

definition dispatch :: "parser \<Rightarrow> pstate \<Rightarrow> action \<Rightarrow> step" where
  "dispatch this s a =
     (case a of
        Shift t \<Rightarrow> shift_case s t
      | Reduce p \<Rightarrow> reduce_case this s p
      | Accept \<Rightarrow> Return (JBool True))"

definition parse_iter :: "parser \<Rightarrow> pstate \<Rightarrow> step" where
  "parse_iter this s =
     (case select_action this s of
        (Some a, s1) \<Rightarrow> dispatch this s1 a
      | (None, s1) \<Rightarrow>
          (case error_branch this s1 of
             Inl e \<Rightarrow> Throw e
           | Inr (None, s2) \<Rightarrow> Throw TypeError
           | Inr (Some (Goto n), s2) \<Rightarrow> Continue s2
           | Inr (Some (Act a), s2) \<Rightarrow> dispatch this s2 a))"

text \<open>
  The loop; \<open>None\<close> stands for a loop that does not end. The result of \<^verbatim>\<open>parse\<close>
  is the value returned or the exception raised.
\<close>

partial_function (option) parse_loop :: "parser \<Rightarrow> pstate \<Rightarrow> (js_error + jsval) option" where
  "parse_loop this s =
     (case parse_iter this s of
        Continue s' \<Rightarrow> parse_loop this s'
      | Return v \<Rightarrow> Some (Inr v)
      | Throw e \<Rightarrow> Some (Inl e))"

declare parse_loop.simps [code]

text \<open>
  \<^verbatim>\<open>parse(input)\<close>, from the lexer as \<^verbatim>\<open>setInput\<close> left it.
\<close>

definition initial_state :: "lexer \<Rightarrow> pstate" where
  "initial_state lx =
     \<lparr>stack = [Some 0], vstack = [JNull], lstack = [yylloc lx], cur_symbol = None,
      preErrorSymbol = None, recovering = 0, p_yytext = [], p_yyleng = 0, p_yylineno = 0,
      the_lexer = lx\<rparr>"

definition parse :: "parser \<Rightarrow> lexer \<Rightarrow> (js_error + jsval) option" where
  "parse this lx = parse_loop this (initial_state lx)"

section \<open>What the specification says, for comparison\<close>

text \<open>
  The default-action rule in the words of the specification: a row has a default action
  when it is not empty and every populated cell reduces by the same production (so it
  holds no shift and no accept).
\<close>

definition spec_default_action :: "row \<Rightarrow> action option" where
  "spec_default_action r =
     (case r of
        [] \<Rightarrow> None
      | (k, a) # rest \<Rightarrow>
          (case a of
             Reduce p \<Rightarrow> if list_all (\<lambda>c. snd c = Reduce p) rest then Some (Reduce p) else None
           | _ \<Rightarrow> None))"

text \<open>
  The shift/reduce rule in the words of the specification, from the precedence level
  and associativity of the incoming terminal and the precedence level of the
  production: the cell after the conflict, \<open>None\<close> for the explicit error.
\<close>

datatype assoc = LeftAssoc | RightAssoc | NonAssoc

definition spec_shift_reduce ::
  "(nat \<times> assoc) option \<Rightarrow> nat option \<Rightarrow> action \<Rightarrow> action \<Rightarrow> action option" where
  "spec_shift_reduce terminal_prec production_prec shift reduce =
     (case (terminal_prec, production_prec) of
        (Some (t_level, a), Some p_level) \<Rightarrow>
          if t_level < p_level then Some reduce
          else if p_level = t_level then
            (case a of LeftAssoc \<Rightarrow> Some reduce | RightAssoc \<Rightarrow> Some shift | NonAssoc \<Rightarrow> None)
          else Some shift
      | _ \<Rightarrow> Some shift)"

definition no_Accept :: "row \<Rightarrow> bool" where
  "no_Accept r = (Accept \<notin> snd ` set r)"






text \<open>The number of cells of a table that hold the accept action.\<close>

definition accept_cells :: "row list \<Rightarrow> nat" where
  "accept_cells tbl = length (filter (\<lambda>c. snd c = Accept) (concat tbl))"

section \<open>Measures and invariants used in the proofs\<close>





section \<open>Example inputs\<close>

text \<open>
  The grammar \<open>S \<rightarrow> a b\<close> with the tokens \<open>a\<close> and \<open>b\<close> and the start
  symbol \<open>S\<close>, and the fields of an SLRGenerator after \<^verbatim>\<open>preprocess()\<close> for it.
\<close>

definition example_grammar :: grammar where
  "example_grammar =
     GrammarObject
       (Some \<lparr>start = Some ''S'', tokens = Some (TokensArray [''a'', ''b'']),
              productions = Some [\<lparr>symbol = ''S'', handle = [''a'', ''b'']\<rparr>]\<rparr>)
       None"

definition example_generator :: generator where
  "example_generator =
     \<lparr>terminals = [''a'', ''b''], nonterminals = NonterminalSet [''S''],
      this_productions = [(''S'', [''a'', ''b''])],
      firstSets = [(''a'', [''a'']), (''b'', [''b'']), (''S'', [''a''])],
      followSets = [(''S'', [''$''])], this_start = Some ''S''\<rparr>"

definition mk_item :: "string \<Rightarrow> string list \<Rightarrow> nat \<Rightarrow> string list \<Rightarrow> item" where
  "mk_item l r d la = \<lparr>production = (l, r), dotPosition = d, lookahead = la\<rparr>"


text \<open>
  A grammar with an empty production list, and the grammar \<open>S \<rightarrow> a\<close> without a
  start symbol.
\<close>

definition empty_grammar :: grammar where
  "empty_grammar =
     GrammarObject
       (Some \<lparr>start = Some ''S'', tokens = Some (TokensArray []), productions = Some []\<rparr>)
       None"

definition startless_grammar :: grammar where
  "startless_grammar =
     GrammarObject
       (Some \<lparr>start = None, tokens = Some (TokensArray [''a'']),
              productions = Some [\<lparr>symbol = ''S'', handle = [''a'']\<rparr>]\<rparr>)
       None"

text \<open>
  The LR(1) collection of the grammar \<open>G \<rightarrow> S\<close>, \<open>S \<rightarrow> a X a | b X b\<close>,
  \<open>X \<rightarrow> c\<close> with start symbol \<open>G\<close>, numbered in the order in which
  \<^verbatim>\<open>canonicalCollection\<close> finds the states. States 5 and 7 hold the item
  \<open>X \<rightarrow> c \<bullet>\<close>, with lookahead \<open>a\<close> and with lookahead \<open>b\<close>.
\<close>

definition lr1_collection :: "state list" where
  "lr1_collection =
    [\<lparr>items = [mk_item ''G'' [''S''] 0 [''$''], mk_item ''S'' [''a'', ''X'', ''a''] 0 [''$''],
               mk_item ''S'' [''b'', ''X'', ''b''] 0 [''$'']],
      transitions = Some [(''S'', 1), (''a'', 2), (''b'', 3)]\<rparr>,
     \<lparr>items = [mk_item ''G'' [''S''] 1 [''$'']], transitions = None\<rparr>,
     \<lparr>items = [mk_item ''S'' [''a'', ''X'', ''a''] 1 [''$''], mk_item ''X'' [''c''] 0 [''a'']],
      transitions = Some [(''X'', 4), (''c'', 5)]\<rparr>,
     \<lparr>items = [mk_item ''S'' [''b'', ''X'', ''b''] 1 [''$''], mk_item ''X'' [''c''] 0 [''b'']],
      transitions = Some [(''X'', 6), (''c'', 7)]\<rparr>,
     \<lparr>items = [mk_item ''S'' [''a'', ''X'', ''a''] 2 [''$'']], transitions = Some [(''a'', 8)]\<rparr>,
     \<lparr>items = [mk_item ''X'' [''c''] 1 [''a'']], transitions = None\<rparr>,
     \<lparr>items = [mk_item ''S'' [''b'', ''X'', ''b''] 2 [''$'']], transitions = Some [(''b'', 9)]\<rparr>,
     \<lparr>items = [mk_item ''X'' [''c''] 1 [''b'']], transitions = None\<rparr>,
     \<lparr>items = [mk_item ''S'' [''a'', ''X'', ''a''] 3 [''$'']], transitions = None\<rparr>,
     \<lparr>items = [mk_item ''S'' [''b'', ''X'', ''b''] 3 [''$'']], transitions = None\<rparr>]"

text \<open>
  A state of the grammar \<open>E \<rightarrow> E + E | id\<close>: after \<open>E + E\<close> the production
  is complete with \<open>+\<close> in its lookahead, and \<open>+\<close> can also be shifted.
\<close>

definition expression_productions :: "production list" where
  "expression_productions = [(''E'', [''E'', ''+'', ''E'']), (''E'', [''id''])]"

definition expression_state :: state where
  "expression_state =
     \<lparr>items = [mk_item ''E'' [''E'', ''+'', ''E''] 3 [''+''],
               mk_item ''E'' [''E'', ''+'', ''E''] 1 [''+'']],
      transitions = Some [(''+'', 4)]\<rparr>"

text \<open>A lexer over a list of tokens, as \<^verbatim>\<open>setInput\<close> leaves it.\<close>

definition example_location :: location where
  "example_location =
     \<lparr>first_line = Some 1, last_line = Some 1, first_column = Some 0, last_column = Some 0,
      loc_range = None\<rparr>"

definition example_lexer :: "token list \<Rightarrow> lexer" where
  "example_lexer ts =
     \<lparr>pending = ts, yytext = [], yyleng = 0, yylineno = 0, yylloc = example_location,
      showPosition = None, ranges = False\<rparr>"

text \<open>
  A parser whose state 0 reduces the empty production 0 by default, with an action that
  returns the string \<^verbatim>\<open>done\<close>.
\<close>

definition returning_parser :: parser where
  "returning_parser =
     \<lparr>table = [[(3, Goto 1)], []], defaultActions = [(0, Reduce 0)],
      parser_productions = [(3, 0)], parser_terminals = [],
      performAction = (\<lambda>a. Inr \<lparr>returned = JStr ''done'', r_value = a_value a,
                                  r_location = a_location a\<rparr>),
      yy_parseError = None\<rparr>"

text \<open>
  A parser whose state 0 reduces the empty production 0 by default and whose state 1
  reduces production 1, of length 1, by default. The action sets the value \<^verbatim>\<open>v\<close>
  and returns nothing for production 0; for production 1 it returns the number of
  entries of the value stack it is given. After the first reduction the stacks hold two
  entries; the state then and the arguments of the action for production 1 follow.
\<close>

definition counting_parser :: parser where
  "counting_parser =
     \<lparr>table = [[(3, Goto 1)], []], defaultActions = [(0, Reduce 0), (1, Reduce 1)],
      parser_productions = [(3, 0), (4, 1)], parser_terminals = [],
      performAction =
        (\<lambda>a. Inr \<lparr>returned = (if a_production a = 0 then JUndefined
                                else JNum (int (length (a_vstack a)))),
                    r_value = (if a_production a = 0 then JStr ''v'' else a_value a),
                    r_location = a_location a\<rparr>),
      yy_parseError = None\<rparr>"

definition counting_state :: pstate where
  "counting_state =
     \<lparr>stack = [Some 0, Some 3, Some 1], vstack = [JNull, JStr ''v''],
      lstack = [example_location, example_location], cur_symbol = None,
      preErrorSymbol = None, recovering = 0, p_yytext = [], p_yyleng = 0, p_yylineno = 0,
      the_lexer = example_lexer []\<rparr>"

definition counting_args :: action_args where
  "counting_args =
     \<lparr>a_yytext = [], a_yyleng = 0, a_yylineno = 0, a_production = 1,
      a_vstack = [JNull, JStr ''v''], a_lstack = [example_location, example_location],
      a_value = JStr ''v'', a_location = example_location\<rparr>"

text \<open>
  A parser whose state 0 reduces the empty production 0 by default, with an action that
  sets the value \<^verbatim>\<open>v\<close> and returns nothing, and whose state 1 accepts by default.
\<close>

definition accepting_parser :: parser where
  "accepting_parser =
     \<lparr>table = [[(3, Goto 1)], []], defaultActions = [(0, Reduce 0), (1, Accept)],
      parser_productions = [(3, 0)], parser_terminals = [],
      performAction = (\<lambda>a. Inr \<lparr>returned = JUndefined, r_value = JStr ''v'',
                                  r_location = a_location a\<rparr>),
      yy_parseError = None\<rparr>"

definition accepting_state :: pstate where
  "accepting_state =
     \<lparr>stack = [Some 0, Some 3, Some 1], vstack = [JNull, JStr ''v''],
      lstack = [example_location, example_location], cur_symbol = None,
      preErrorSymbol = None, recovering = 0, p_yytext = [], p_yyleng = 0, p_yylineno = 0,
      the_lexer = example_lexer []\<rparr>"

text \<open>
  A parser whose state 0 shifts the error token (number 2) and the token 4, with a
  \<^verbatim>\<open>yy.parseError\<close> that returns, and the same parser without one.
\<close>

definition recovering_parser :: parser where
  "recovering_parser =
     \<lparr>table = [[(2, Act (Shift 1)), (4, Act (Shift 2))], [], []], defaultActions = [],
      parser_productions = [(3, 1)],
      parser_terminals = [(2, ''error''), (4, ''a''), (5, ''b'')],
      performAction = (\<lambda>a. Inr \<lparr>returned = JUndefined, r_value = a_value a,
                                  r_location = a_location a\<rparr>),
      yy_parseError = Some (\<lambda>str hash. None)\<rparr>"

definition token_b :: token where
  "token_b = \<lparr>tok_id = 5, tok_text = ''b'', tok_leng = 1, tok_lineno = 0,
              tok_loc = example_location\<rparr>"

section \<open>Properties\<close>

lemma createGenerator_unknown_name:
  assumes "t \<notin> {''lr0'', ''slr'', ''lalr'', ''lr1'', ''ll''}"
    and "t \<noteq> ''constructor''" and "t \<noteq> ''__proto__''"
    and "t \<notin> set Object_prototype_methods"
  shows "createGenerator (Some t) = Inr (Instance LALRGenerator)"
  using assms
  by (simp add: createGenerator_def generatorMap_get_def generatorMap_def
      Object_prototype_get_def)

lemma createGenerator_undefined:
  "createGenerator None = Inr (Instance LALRGenerator)"
  by (simp add: createGenerator_def generatorMap_get_def generatorMap_def
      Object_prototype_get_def Object_prototype_methods_def)

text \<open>
  C10. The fallback to the LALR generator is missed for the names inherited from
  \<^verbatim>\<open>Object.prototype\<close>: for the type string \<^verbatim>\<open>toString\<close>, outside the five
  keys, \<^verbatim>\<open>generatorMap[type]\<close> is the inherited method, which is truthy, so the
  \<^verbatim>\<open>||\<close> does not fall back, and \<^verbatim>\<open>new\<close> raises a TypeError; for
  \<^verbatim>\<open>constructor\<close> the result is no generator at all.
\<close>

theorem createGenerator_inherited_name:
  "''toString'' \<notin> {''lr0'', ''slr'', ''lalr'', ''lr1'', ''ll''} \<and>
   createGenerator (Some ''toString'') = Inl TypeError \<and>
   ''constructor'' \<notin> {''lr0'', ''slr'', ''lalr'', ''lr1'', ''ll''} \<and>
   createGenerator (Some ''constructor'') = Inr NoGenerator"
  by (simp add: createGenerator_def generatorMap_get_def generatorMap_def
      Object_prototype_get_def Object_prototype_methods_def)

subsection \<open>findDefaults\<close>

lemma default_of_row_Some:
  "default_of_row r = Some a \<longleftrightarrow> (\<exists>k p. r = [(k, Reduce p)] \<and> a = Reduce p)"
  by (cases r; cases "tl r"; cases a)
    (auto simp: default_of_row_def split: action.splits list.splits)

lemma map_of_defaults_enumerate:
  "map_of (concat (map (\<lambda>(stateIndex, r).
        case default_of_row r of None \<Rightarrow> [] | Some a \<Rightarrow> [(stateIndex, a)])
      (enumerate n tbl))) i =
   (if n \<le> i \<and> i < n + length tbl then default_of_row (tbl ! (i - n)) else None)"
proof (induction tbl arbitrary: n)
  case Nil
  then show ?case by auto
next
  case (Cons r tbl)
  show ?case
  proof (cases "i = n")
    case True
    then show ?thesis using Cons[of "Suc n"]
      by (auto split: option.splits)
  next
    case False
    then show ?thesis using Cons[of "Suc n"]
      by (auto split: option.splits simp: nth_Cons')
  qed
qed

text \<open>
  C8, as the code has it. \<^verbatim>\<open>findDefaults\<close> records a default action for a state
  exactly when the row of the state has one populated cell and that cell is a reduce
  action (\<^verbatim>\<open>actions.length === 1 && actions[0][0] === ParserActions.REDUCE\<close>); the
  default is that action.
\<close>

theorem findDefaults_single_reduce_cell:
  "map_of (findDefaults tbl) i = Some a \<longleftrightarrow>
   i < length tbl \<and> (\<exists>k p. tbl ! i = [(k, Reduce p)] \<and> a = Reduce p)"
  unfolding findDefaults_def map_of_defaults_enumerate
  by (auto simp: default_of_row_Some)

text \<open>
  C8, as the claim states it, fails: a row whose two cells reduce by the same
  production 2 holds one distinct reduce action, no shift and no accept, and gets no
  default action.
\<close>

theorem findDefaults_two_cells_counterexample:
  "spec_default_action [(''a'', Reduce 2), (''b'', Reduce 2)] = Some (Reduce 2) \<and>
   map_of (findDefaults [[(''a'', Reduce 2), (''b'', Reduce 2)]]) 0 = None"
  by (simp add: spec_default_action_def findDefaults_def default_of_row_def)

subsection \<open>parseTable and resolveConflict\<close>

lemma set_AList_update_subset:
  "set (AList.update k v al) \<subseteq> insert (k, v) (set al)"
  by (induction al) auto

lemma add_reduce_no_Accept:
  "no_Accept (fst acc) \<Longrightarrow> no_Accept (fst (add_reduce prods i it acc la))"
  using set_AList_update_subset[of la "Reduce (indexOf prods (production it))" "fst acc"]
  by (cases acc) (fastforce simp: add_reduce_def no_Accept_def split: option.splits)

lemma foldl_add_reduce_no_Accept:
  "no_Accept (fst acc) \<Longrightarrow> no_Accept (fst (foldl (add_reduce prods i it) acc las))"
  by (induction las arbitrary: acc) (simp_all add: add_reduce_no_Accept)

lemma add_reduces_no_Accept:
  "no_Accept (fst acc) \<Longrightarrow> no_Accept (fst (add_reduces prods i acc it))"
  by (simp add: add_reduces_def foldl_add_reduce_no_Accept)

lemma foldl_add_reduces_no_Accept:
  "no_Accept (fst acc) \<Longrightarrow> no_Accept (fst (foldl (add_reduces prods i) acc its))"
  by (induction its arbitrary: acc) (simp_all add: add_reduces_no_Accept)

lemma foldl_shift_no_Accept:
  "no_Accept r \<Longrightarrow>
   no_Accept (foldl (\<lambda>stateTable (sb, nextState). AList.update sb (Shift nextState) stateTable) r tr)"
proof (induction tr arbitrary: r)
  case Nil
  then show ?case by simp
next
  case (Cons p tr)
  obtain sb n where p: "p = (sb, n)" by (cases p)
  have "no_Accept (AList.update sb (Shift n) r)"
    using Cons.prems set_AList_update_subset[of sb "Shift n" r]
    by (fastforce simp: no_Accept_def)
  then show ?case using Cons.IH p by simp
qed

lemma add_shifts_no_Accept: "no_Accept (add_shifts t)"
proof (cases t)
  case None
  then show ?thesis by (simp add: add_shifts_def no_Accept_def)
next
  case (Some tr)
  have "no_Accept []" by (simp add: no_Accept_def)
  then show ?thesis
    using Some foldl_shift_no_Accept[of "[]" tr] by (simp add: add_shifts_def)
qed

lemma state_row_no_Accept: "no_Accept (fst (state_row prods i st cr))"
  unfolding state_row_def
  by (rule foldl_add_reduces_no_Accept) (simp add: add_shifts_no_Accept)

lemma parseTable_from_no_Accept:
  "list_all no_Accept (fst (parseTable_from prods i sts cr))"
proof (induction sts arbitrary: i cr)
  case Nil
  then show ?case by simp
next
  case (Cons st sts)
  show ?case
    using Cons.IH[of "Suc i" "snd (state_row prods i st cr)"] state_row_no_Accept[of prods i st cr]
    by (auto split: prod.splits)
qed

text \<open>
  Whatever the states are, no cell of the table that \<^verbatim>\<open>parseTable\<close> builds holds
  the accept action: the builder writes shift and reduce actions only.
\<close>

lemma parseTable_never_Accept:
  "list_all no_Accept (fst (parseTable prods states cr))"
  by (simp add: parseTable_def parseTable_from_no_Accept)

lemma add_reduce_keeps:
  "map_of (fst acc) k = Some a \<Longrightarrow> map_of (fst (add_reduce prods i it acc la)) k = Some a"
  by (cases acc) (auto simp: add_reduce_def update_conv' split: option.splits)

lemma foldl_add_reduce_keeps:
  "map_of (fst acc) k = Some a \<Longrightarrow>
   map_of (fst (foldl (add_reduce prods i it) acc las)) k = Some a"
  by (induction las arbitrary: acc) (simp_all add: add_reduce_keeps)

lemma foldl_add_reduces_keeps:
  "map_of (fst acc) k = Some a \<Longrightarrow>
   map_of (fst (foldl (add_reduces prods i) acc its)) k = Some a"
  by (induction its arbitrary: acc) (simp_all add: add_reduces_def foldl_add_reduce_keeps)

lemma map_of_foldl_shift:
  "distinct (map fst tr) \<Longrightarrow>
   map_of (foldl (\<lambda>stateTable (sb, nextState). AList.update sb (Shift nextState) stateTable) r tr) k =
   (case map_of tr k of Some n \<Rightarrow> Some (Shift n) | None \<Rightarrow> map_of r k)"
proof (induction tr arbitrary: r)
  case Nil
  then show ?case by simp
next
  case (Cons p tr)
  obtain sb n where p: "p = (sb, n)" by (cases p)
  have "map_of tr sb = None"
    using Cons.prems p by (simp add: map_of_eq_None_iff)
  then show ?case
    using Cons p by (auto simp: update_conv' split: option.splits)
qed

lemma state_row_keeps_shift:
  assumes "transitions st = Some tr" and "distinct (map fst tr)" and "map_of tr sb = Some t"
  shows "map_of (fst (state_row prods i st cr)) sb = Some (Shift t)"
  unfolding state_row_def
  by (rule foldl_add_reduces_keeps) (simp add: add_shifts_def assms map_of_foldl_shift)

text \<open>
  C3, as the code has it. When the cell of a reduce action is already set, the cell
  stays as it is, one conflict is counted and one resolution is recorded; the recorded
  resolution is the existing action when that is a shift and the reduce by the incoming
  production otherwise. So in the row of a state the cell of every transition symbol
  holds its shift, whatever completed items the state has. Precedence and
  associativity are no input of any of these functions.
\<close>

theorem conflict_keeps_existing_cell:
  "(map_of stateTable la = Some existing \<longrightarrow>
      add_reduce prods i it (stateTable, conflicts, resolutions) la =
        (stateTable, conflicts + 1,
         resolutions @ [(i, la, resolveConflict prods (production it) existing)])) \<and>
   resolveConflict prods p (Shift t) = Shift t \<and>
   resolveConflict prods p (Reduce q) = Reduce (indexOf prods p) \<and>
   (transitions st = Some tr \<and> distinct (map fst tr) \<and> map_of tr sb = Some n \<longrightarrow>
      map_of (fst (state_row prods i st cr)) sb = Some (Shift n))"
  by (simp add: add_reduce_def resolveConflict_def state_row_keeps_shift)

theorem conflict_keeps_existing_cell_witness:
  "add_reduce expression_productions 5 (mk_item ''E'' [''E'', ''+'', ''E''] 3 [''+''])
     ([(''+'', Shift 4)], 0, []) ''+'' =
     ([(''+'', Shift 4)], 1, [(5, ''+'', Shift 4)]) \<and>
   map_of (fst (state_row expression_productions 5 expression_state (0, []))) ''+'' =
     Some (Shift 4)"
  using conflict_keeps_existing_cell
    [of "[(''+'', Shift 4)]" "''+''" "Shift 4" expression_productions 5
        "mk_item ''E'' [''E'', ''+'', ''E''] 3 [''+'']" 0 "[]"
        "(''E'', [''E'', ''+'', ''E''])" 4 0
        expression_state "[(''+'', 4)]" "''+''" 4 "(0, [])"]
  by (simp add: resolveConflict_def expression_state_def mk_item_def)

text \<open>
  C3, as the claim states it, fails. The state holds the completed item
  \<open>E \<rightarrow> E + E \<bullet>\<close> with lookahead \<open>+\<close> and a transition on \<open>+\<close>. With
  \<open>+\<close> left associative at level 1, the production has level 1 too and the claim
  makes the cell the reduce by production 0; the builder keeps the shift and records
  it as the resolution.
\<close>

theorem shift_reduce_precedence_counterexample:
  "spec_shift_reduce (Some (1, LeftAssoc)) (Some 1) (Shift 4) (Reduce 0) = Some (Reduce 0) \<and>
   state_row expression_productions 5 expression_state (0, []) =
     ([(''+'', Shift 4)], 1, [(5, ''+'', Shift 4)])"
  by (simp add: spec_shift_reduce_def state_row_def add_shifts_def add_reduces_def
      add_reduce_def resolveConflict_def expression_state_def expression_productions_def
      mk_item_def)

subsection \<open>processGrammar and preprocess\<close>




























text \<open>
  On the way, \<^verbatim>\<open>processGrammar\<close> of the SLR generator returns for both grammars:
  the validation finds nothing wrong with them.
\<close>

lemma processGrammar_returns_example:
  "processGrammar (new_generator empty_grammar) empty_grammar =
     Inr \<lparr>terminals = [], nonterminals = NonterminalSet [], this_productions = [],
          firstSets = [], followSets = [], this_start = Some ''S''\<rparr> \<and>
   processGrammar (new_generator startless_grammar) startless_grammar =
     Inr \<lparr>terminals = [''a''], nonterminals = NonterminalSet [''S''],
          this_productions = [(''S'', [''a''])],
          firstSets = [(''a'', [''a'']), (''S'', [])], followSets = [(''S'', [])],
          this_start = None\<rparr>"
  by (simp add: processGrammar_def validateGrammar_def new_generator_def processTokens_def
      addProduction_def collect_production_def Set_add_def Let_def empty_grammar_def
      startless_grammar_def)

subsection \<open>The accept action\<close>

lemma preprocess_example:
  "preprocess example_grammar = Some (Inr example_generator)"
  by code_simp

text \<open>
  C1. The SLR generator builds the table of the grammar \<open>S \<rightarrow> a b\<close> without
  error: three states, the two shifts and the reduce in the end-of-input column. No
  cell of the table holds the accept action, where the claim has exactly one.
\<close>

theorem SLR_table_without_Accept:
  "SLR_build example_grammar =
     Some (Inr ([\<lparr>items = [mk_item ''S'' [''a'', ''b''] 0 [''$end'']],
                  transitions = Some [(''a'', 1)]\<rparr>,
                 \<lparr>items = [mk_item ''S'' [''a'', ''b''] 1 [''$end'']],
                  transitions = Some [(''b'', 2)]\<rparr>,
                 \<lparr>items = [mk_item ''S'' [''a'', ''b''] 2 [''$end'']],
                  transitions = None\<rparr>],
                [[(''a'', Shift 1)], [(''b'', Shift 2)], [(''$end'', Reduce 0)]],
                [(2, Reduce 0)], 0)) \<and>
   accept_cells [[(''a'', Shift 1)], [(''b'', Shift 2)], [(''$end'', Reduce 0)]] = 0"
  by code_simp

lemma accept_cells_parseTable: "accept_cells (fst (parseTable prods states cr)) = 0"
proof -
  have "list_all no_Accept tbl \<Longrightarrow> accept_cells tbl = 0" for tbl
    by (induction tbl) (force simp: accept_cells_def no_Accept_def filter_empty_conv)+
  then show ?thesis
    using parseTable_never_Accept by blast
qed

text \<open>
  Every table that the SLR generator builds is without a cell that holds the accept
  action.
\<close>

lemma SLR_build_no_Accept:
  assumes "SLR_build g = Some (Inr (states, tbl, dflt, conflicts))"
  shows "accept_cells tbl = 0"
proof -
  from assms obtain this where "buildTable this = Some (Inr (states, tbl, dflt, conflicts))"
    by (auto simp: SLR_build_def split: option.splits sum.splits)
  then have "tbl = fst (parseTable (this_productions this) states (0, []))"
    by (auto simp: buildTable_def split: option.splits sum.splits prod.splits)
  then show ?thesis
    by (simp add: accept_cells_parseTable)
qed

subsection \<open>mergeStates\<close>

text \<open>
  C2. \<^verbatim>\<open>mergeStates\<close> puts the states 5 and 7 of the LR(1) collection into one
  state and so makes the list one state shorter, but every transition keeps the index
  it had in the LR(1) collection: the state \<open>S \<rightarrow> b X \<bullet> b\<close>, now at index 6, goes
  to state 9 of a list of 9 states. The merged state holds the two items side by side,
  each with its own lookahead. \<^verbatim>\<open>parseTable\<close> then raises a ReferenceError.
\<close>

theorem mergeStates_dangling_target:
  "length (mergeStates (Some ''G'') lr1_collection) = 9 \<and>
   mergeStates (Some ''G'') lr1_collection ! 5 =
     \<lparr>m_items = [mk_item ''X'' [''c''] 1 [''a''], mk_item ''X'' [''c''] 1 [''b'']],
      m_transitions = Some []\<rparr> \<and>
   mergeStates (Some ''G'') lr1_collection ! 6 =
     \<lparr>m_items = [mk_item ''S'' [''b'', ''X'', ''b''] 2 [''$'']],
      m_transitions = Some [(''b'', Single 9)]\<rparr> \<and>
   targets_valid (mergeStates (Some ''G'') lr1_collection) = False \<and>
   LALR_parseTable
     [(''G'', [''S'']), (''S'', [''a'', ''X'', ''a'']), (''S'', [''b'', ''X'', ''b'']),
      (''X'', [''c''])]
     (mergeStates (Some ''G'') lr1_collection) (0, []) = Inl ReferenceError"
  by code_simp

lemma LALR_state_row_transition:
  "m_transitions st = Some (t # ts) \<Longrightarrow> LALR_state_row prods i st cr = Inl ReferenceError"
  by (simp add: LALR_state_row_def)

lemma LALR_state_row_cases:
  "LALR_state_row prods i st cr = Inl ReferenceError \<or>
   \<not> isl (LALR_state_row prods i st cr)"
  by (simp add: LALR_state_row_def split: option.splits list.splits)

text \<open>
  \<^verbatim>\<open>LALRGenerator.parseTable\<close> builds no table for a collection in which some state
  has a transition.
\<close>

lemma LALR_parseTable_ReferenceError:
  assumes "list_ex (\<lambda>st. \<exists>t ts. m_transitions st = Some (t # ts)) states"
  shows "LALR_parseTable prods states cr = Inl ReferenceError"
proof -
  have "LALR_parseTable_from prods i states cr = Inl ReferenceError" for i
    using assms
  proof (induction states arbitrary: i cr)
    case Nil
    then show ?case by simp
  next
    case (Cons st sts)
    show ?case
    proof (cases "\<exists>t ts. m_transitions st = Some (t # ts)")
      case True
      then show ?thesis by (auto simp: LALR_state_row_transition)
    next
      case False
      with Cons.prems have rest: "list_ex (\<lambda>st. \<exists>t ts. m_transitions st = Some (t # ts)) sts"
        by simp
      from LALR_state_row_cases[of prods i st cr] show ?thesis
      proof
        assume "LALR_state_row prods i st cr = Inl ReferenceError"
        then show ?thesis by simp
      next
        assume "\<not> isl (LALR_state_row prods i st cr)"
        then obtain stateTable cr' where "LALR_state_row prods i st cr = Inr (stateTable, cr')"
          by (cases "LALR_state_row prods i st cr") auto
        then show ?thesis
          using Cons.IH[OF rest, of "i + 1" cr'] by simp
      qed
    qed
  qed
  then show ?thesis by (simp add: LALR_parseTable_def)
qed

subsection \<open>closure and the canonical collection\<close>



























subsection \<open>The parse loop\<close>

lemma select_action_stacks:
  "select_action this s = (a, s1) \<Longrightarrow>
   stack s1 = stack s \<and> vstack s1 = vstack s \<and> lstack s1 = lstack s"
  by (auto simp: select_action_def Let_def split: option.splits prod.splits)

lemma reduce_args_stacks:
  "reduce_args this s p = Inr (lhs, len, args) \<Longrightarrow>
   a_vstack args = vstack s \<and> a_lstack args = lstack s \<and> a_production args = p"
  by (auto simp: reduce_args_def split: if_splits prod.splits option.splits)

text \<open>
  The reads of the reduce case succeed exactly when the production is there and the
  location stack holds the entries read, with a range each when the lexer tracks ranges.
\<close>

lemma reduce_args_returns_iff:
  "(\<exists>r. reduce_args this s p = Inr r) \<longleftrightarrow>
     0 \<le> p \<and> nat p < length (parser_productions this) \<and>
     (\<exists>l1 l2.
        from_top (lstack s)
          (if snd (parser_productions this ! nat p) = 0 then 1
           else snd (parser_productions this ! nat p)) = Some l1 \<and>
        from_top (lstack s) 1 = Some l2 \<and>
        (ranges (the_lexer s) \<longrightarrow> loc_range l1 \<noteq> None \<and> loc_range l2 \<noteq> None))"
  by (cases "parser_productions this ! nat p")
    (auto simp: reduce_args_def split: option.splits)

text \<open>
  C9, as the code has it. When the action selected is a reduce and the production and
  the locations that the reduce case reads are there, the semantic action is called with
  the value stack and the location stack as they are, nothing popped; and if it returns
  a value other than \<^verbatim>\<open>undefined\<close>, that value is the result of \<^verbatim>\<open>parse\<close>.
\<close>

theorem reduce_runs_action_before_pop:
  assumes "select_action this s = (Some (Reduce p), s1)"
    and "reduce_args this s1 p = Inr (lhs, len, args)"
  shows "a_vstack args = vstack s \<and> a_lstack args = lstack s \<and>
         (\<forall>res. performAction this args = Inr res \<and> returned res \<noteq> JUndefined \<longrightarrow>
            parse_loop this s = Some (Inr (returned res)))"
proof -
  have stacks: "a_vstack args = vstack s \<and> a_lstack args = lstack s"
    using select_action_stacks[OF assms(1)] reduce_args_stacks[OF assms(2)] by simp
  have "parse_loop this s = Some (Inr (returned res))"
    if "performAction this args = Inr res" and "returned res \<noteq> JUndefined" for res
  proof -
    have "parse_iter this s = Return (returned res)"
      using assms that by (simp add: parse_iter_def dispatch_def reduce_case_def)
    then show ?thesis
      by (subst parse_loop.simps) simp
  qed
  with stacks show ?thesis by blast
qed

text \<open>
  The witness is the second reduction of a run: after the empty production 0 has been
  reduced the stacks hold two entries, and production 1, of length 1, is reduced. Its
  action is given the value stack with both entries and returns their number, 2; had the
  stacks been popped first it would have returned 1.
\<close>

lemma counting_parser_run:
  "parse_iter counting_parser (initial_state (example_lexer [])) = Continue counting_state \<and>
   parse counting_parser (example_lexer []) = Some (Inr (JNum 2))"
  by code_simp

theorem reduce_runs_action_before_pop_witness:
  "select_action counting_parser counting_state = (Some (Reduce 1), counting_state) \<and>
   reduce_args counting_parser counting_state 1 = Inr (4, 1, counting_args) \<and>
   a_vstack counting_args = [JNull, JStr ''v''] \<and>
   parse_loop counting_parser counting_state = Some (Inr (JNum 2))"
proof -
  have sel: "select_action counting_parser counting_state = (Some (Reduce 1), counting_state)"
    by (simp add: select_action_def counting_parser_def counting_state_def top_def)
  have args: "reduce_args counting_parser counting_state 1 = Inr (4, 1, counting_args)"
    by (simp add: reduce_args_def counting_parser_def counting_state_def counting_args_def
        from_top_def example_lexer_def example_location_def)
  have act: "performAction counting_parser counting_args =
               Inr \<lparr>returned = JNum 2, r_value = JStr ''v'', r_location = example_location\<rparr>"
    by (simp add: counting_parser_def counting_args_def)
  from reduce_runs_action_before_pop[OF sel args] act sel args show ?thesis
    by (simp add: counting_args_def counting_state_def)
qed

text \<open>
  When a read of the reduce case fails, \<^verbatim>\<open>parse\<close> ends with its TypeError, and
  the semantic action has no part in the result.
\<close>

lemma reduce_unreadable_raises:
  assumes "select_action this s = (Some (Reduce p), s1)"
    and "reduce_args this s1 p = Inl e"
  shows "parse_loop this s = Some (Inl e)"
proof -
  have "parse_iter this s = Throw e"
    using assms by (simp add: parse_iter_def dispatch_def reduce_case_def)
  then show ?thesis
    by (subst parse_loop.simps) simp
qed

text \<open>
  C9, as the claim states it, fails. The action of the parser returns the string
  \<^verbatim>\<open>done\<close> whenever it is called. With the default action \<open>Reduce 1\<close> in
  state 0 and one production only, \<^verbatim>\<open>productions_[1]\<close> is \<^verbatim>\<open>undefined\<close>;
  with a production of length 2 reduced on the initial stacks, the location stack has no
  entry for the first symbol. In both runs a reduce is dispatched and \<^verbatim>\<open>parse\<close>
  raises a TypeError instead of returning what the action returns.
\<close>

theorem reduce_without_action_counterexample:
  "select_action (returning_parser\<lparr>defaultActions := [(0, Reduce 1)]\<rparr>)
     (initial_state (example_lexer [])) =
     (Some (Reduce 1), initial_state (example_lexer [])) \<and>
   parse (returning_parser\<lparr>defaultActions := [(0, Reduce 1)]\<rparr>) (example_lexer []) =
     Some (Inl TypeError) \<and>
   select_action (returning_parser\<lparr>parser_productions := [(3, 2)]\<rparr>)
     (initial_state (example_lexer [])) =
     (Some (Reduce 0), initial_state (example_lexer [])) \<and>
   parse (returning_parser\<lparr>parser_productions := [(3, 2)]\<rparr>) (example_lexer []) =
     Some (Inl TypeError)"
  by code_simp

text \<open>
  C7, as the code has it. When the action selected is the accept action,
  \<^verbatim>\<open>parse\<close> returns \<^verbatim>\<open>true\<close>.
\<close>

theorem accept_returns_true:
  assumes "select_action this s = (Some Accept, s1)"
  shows "parse_loop this s = Some (Inr (JBool True))"
proof -
  have "parse_iter this s = Return (JBool True)"
    using assms by (simp add: parse_iter_def dispatch_def)
  then show ?thesis
    by (subst parse_loop.simps) simp
qed

lemma accepting_state_selects_Accept:
  "select_action accepting_parser accepting_state = (Some Accept, accepting_state)"
  by (simp add: select_action_def accepting_parser_def accepting_state_def top_def)

theorem accept_returns_true_witness:
  "parse_loop accepting_parser accepting_state = Some (Inr (JBool True))"
  using accept_returns_true[OF accepting_state_selects_Accept] .

text \<open>
  C7, as the claim states it, fails: after one reduction the parser is in a state that
  accepts, with the value \<^verbatim>\<open>v\<close> on top of the value stack, and \<^verbatim>\<open>parse\<close>
  returns \<^verbatim>\<open>true\<close>, not that value.
\<close>

theorem accept_value_counterexample:
  "parse_iter accepting_parser (initial_state (example_lexer [])) = Continue accepting_state \<and>
   select_action accepting_parser accepting_state = (Some Accept, accepting_state) \<and>
   top (vstack accepting_state) = Some (JStr ''v'') \<and>
   parse accepting_parser (example_lexer []) = Some (Inr (JBool True))"
  by code_simp

lemma error_branch_raises: "\<exists>e. error_branch this s = Inl e"
  by (auto simp: error_branch_def error_rule_depth_def popStack_def Let_def
      split: option.splits)

text \<open>
  Whenever there is no action for the state and the token, \<^verbatim>\<open>parse\<close> ends with an
  exception: the stack is not searched for a state that shifts the error token.
\<close>

lemma no_action_raises:
  assumes "select_action this s = (None, s1)"
  shows "\<exists>e. parse_loop this s = Some (Inl e)"
proof -
  obtain e where "error_branch this s1 = Inl e"
    using error_branch_raises by blast
  then have "parse_iter this s = Throw e"
    using assms by (simp add: parse_iter_def)
  then show ?thesis
    by (subst parse_loop.simps) simp
qed

text \<open>
  C6. State 0, the only state on the stack, shifts the error token, the token read has
  no action and the recovery counter is 0. The claim has the parser report the error,
  stay in state 0 and go on with the counter at 3. The code reports the error and then
  raises a RangeError; with the \<^verbatim>\<open>parseError\<close> of the class it raises a TypeError
  in the report itself.
\<close>

theorem error_recovery_raises:
  "map_of (table recovering_parser ! 0) TERROR = Some (Act (Shift 1)) \<and>
   select_action recovering_parser (initial_state (example_lexer [token_b])) =
     (None, (initial_state (example_lexer [token_b]))
              \<lparr>cur_symbol := Some 5, the_lexer := snd (lex (example_lexer [token_b]))\<rparr>) \<and>
   parse recovering_parser (example_lexer [token_b]) = Some (Inl RangeError) \<and>
   parse (recovering_parser\<lparr>yy_parseError := None\<rparr>) (example_lexer [token_b]) =
     Some (Inl TypeError)"
  by code_simp

end
